theory Spec2Isabelle
  imports Complex_Main
begin

section \<open>Numbers and the built-in functions of the host language\<close>

text \<open>
  The program computes on JavaScript numbers. They are modelled as the reals: rounding,
  NaN, the infinities and the sign of zero are outside this model. The remainder operator
  \<^verbatim>\<open>a % b\<close> truncates the quotient towards zero, so its result carries the sign of
  the dividend; \<^verbatim>\<open>Math.atan2\<close> is the angle of the point \<open>(xx, yy)\<close> in
  \<open>(-pi, pi]\<close>, and 0 at the origin.
\<close>

definition trunc :: "real \<Rightarrow> int" where
  "trunc q = (if 0 \<le> q then \<lfloor>q\<rfloor> else \<lceil>q\<rceil>)"

definition js_rem :: "real \<Rightarrow> real \<Rightarrow> real" where
  "js_rem a b = a - b * of_int (trunc (a / b))"

definition atan2 :: "real \<Rightarrow> real \<Rightarrow> real" where
  "atan2 yy xx =
     (if 0 < xx then arctan (yy / xx)
      else if xx < 0 then (if 0 \<le> yy then arctan (yy / xx) + pi else arctan (yy / xx) - pi)
      else if 0 < yy then pi / 2
      else if yy < 0 then - (pi / 2)
      else 0)"

section \<open>class Vector\<close>

record vector =
  x :: real
  y :: real

definition Vector :: "real \<Rightarrow> real \<Rightarrow> vector" where
  "Vector a b = \<lparr>x = a, y = b\<rparr>"

section \<open>class MathUtils\<close>

definition degreesToRadians :: "real \<Rightarrow> real" where
  "degreesToRadians degrees = (degrees * pi) / 180"

definition radiansToDegrees :: "real \<Rightarrow> real" where
  "radiansToDegrees radians = (radians * 180) / pi"

text \<open>In the source a zero radius gives an infinity or NaN; here the quotient by 0 is 0.\<close>

definition angleFromArcLength :: "real \<Rightarrow> real \<Rightarrow> real" where
  "angleFromArcLength radius len = (len / radius) * (180 / pi)"

definition normalizeAngle :: "real \<Rightarrow> real" where
  "normalizeAngle angle = js_rem (angle + 360) 360"

definition polarToCartesian :: "real \<Rightarrow> real \<Rightarrow> vector" where
  "polarToCartesian radius angleInDegrees =
     (let angleInRadians = (angleInDegrees - 90) * (pi / 180)
      in Vector (radius * cos angleInRadians) (radius * sin angleInRadians))"

definition isAngleBetween :: "real \<Rightarrow> real \<Rightarrow> real \<Rightarrow> bool" where
  "isAngleBetween angle startAngle endAngle =
     (let normalizedAngle = normalizeAngle angle;
          normalizedStart = normalizeAngle startAngle;
          normalizedEnd = normalizeAngle endAngle
      in if normalizedStart \<le> normalizedEnd
         then normalizedAngle \<ge> normalizedStart \<and> normalizedAngle \<le> normalizedEnd
         else normalizedAngle \<ge> normalizedStart \<or> normalizedAngle \<le> normalizedEnd)"

subsection \<open>Methods of Vector\<close>

definition fromPolar :: "real \<Rightarrow> real \<Rightarrow> vector" where
  "fromPolar magnitude angleInDegrees =
     (let angleInRadians = degreesToRadians angleInDegrees
      in Vector (magnitude * cos angleInRadians) (magnitude * sin angleInRadians))"

definition add :: "vector \<Rightarrow> vector \<Rightarrow> vector" where
  "add this v = Vector (x this + x v) (y this + y v)"

definition subtract :: "vector \<Rightarrow> vector \<Rightarrow> vector" where
  "subtract this v = Vector (x this - x v) (y this - y v)"

definition scale :: "vector \<Rightarrow> real \<Rightarrow> vector" where
  "scale this scalar = Vector (x this * scalar) (y this * scalar)"

definition magnitude :: "vector \<Rightarrow> real" where
  "magnitude this = sqrt ((x this)\<^sup>2 + (y this)\<^sup>2)"

definition arg :: "vector \<Rightarrow> real" where
  "arg this = atan2 (y this) (x this) * (180 / pi)"

definition rotate_vector :: "vector \<Rightarrow> real \<Rightarrow> vector" where
  "rotate_vector this angleInDegrees =
     (let angleInRadians = (angleInDegrees * pi) / 180;
          cosA = cos angleInRadians;
          sinA = sin angleInRadians;
          newX = x this * cosA - y this * sinA;
          newY = x this * sinA + y this * cosA
      in Vector newX newY)"

subsection \<open>The line-arc intersection solvers\<close>

definition isWithinArc :: "vector \<Rightarrow> real \<Rightarrow> real \<Rightarrow> vector \<Rightarrow> bool" where
  "isWithinArc arcCenter arcStart arcEnd pt =
     (let angle = arg (subtract pt arcCenter)
      in isAngleBetween angle arcStart arcEnd)"

definition getIntersectingArcs ::
  "vector \<Rightarrow> vector \<Rightarrow> vector \<Rightarrow> real \<Rightarrow> real \<Rightarrow> vector list" where
  "getIntersectingArcs p1 p2 arcCenter arcStart arcEnd =
     (let points = [];
          points = (if isWithinArc arcCenter arcStart arcEnd p1 then points @ [p1] else points);
          points = (if isWithinArc arcCenter arcStart arcEnd p2 then points @ [p2] else points)
      in points)"

definition intersectionLineArcVertical ::
  "vector \<Rightarrow> real \<Rightarrow> real \<Rightarrow> real \<Rightarrow> real \<Rightarrow> vector list" where
  "intersectionLineArcVertical arcCenter r arcStart arcEnd x0 =
     (let h = x arcCenter;
          k = y arcCenter;
          discriminant = r * r - (x0 - h) * (x0 - h)
      in if discriminant < 0 then []
         else let sqrtD = sqrt discriminant
              in getIntersectingArcs (Vector x0 (k + sqrtD)) (Vector x0 (k - sqrtD))
                   arcCenter arcStart arcEnd)"

text \<open>
  The fifth parameter \<^verbatim>\<open>isHorizontal\<close> of the source is never read; it is
  kept so that a call with five arguments binds as it does in the source.
\<close>

definition intersectionLineArcHorizontal ::
  "vector \<Rightarrow> real \<Rightarrow> real \<Rightarrow> real \<Rightarrow> real \<Rightarrow> real \<Rightarrow> vector list" where
  "intersectionLineArcHorizontal arcCenter r arcStart arcEnd isHorizontal y0 =
     (let h = x arcCenter;
          k = y arcCenter;
          term = r * r - (y0 - k) * (y0 - k)
      in if term < 0 then []
         else let sqrtT = sqrt term
              in getIntersectingArcs (Vector (h + sqrtT) y0) (Vector (h - sqrtT) y0)
                   arcCenter arcStart arcEnd)"

text \<open>
  With radius 0 and the centre on the line, both roots of the sloped solver are the
  abscissa of the centre, but the source computes the second as a negative zero when
  \<^verbatim>\<open>B\<close> is zero, and the argument of \<open>(-0, 0)\<close> is 180 degrees, not 0. The reals
  have one zero, so nothing is stated below about the sloped solver in that case.
\<close>

definition intersectionLineArcAngle ::
  "vector \<Rightarrow> real \<Rightarrow> real \<Rightarrow> real \<Rightarrow> real \<Rightarrow> real \<Rightarrow> vector list" where
  "intersectionLineArcAngle arcCenter r arcStart arcEnd m c =
     (let h = x arcCenter;
          k = y arcCenter;
          A = 1 + m * m;
          B = -2 * h + 2 * m * (c - k);
          C = h * h + (c - k) * (c - k) - r * r;
          discriminant = B * B - 4 * A * C
      in if discriminant < 0 then []
         else let sqrtDiscriminant = sqrt discriminant;
                  x1 = (- B + sqrtDiscriminant) / (2 * A);
                  x2 = (- B - sqrtDiscriminant) / (2 * A)
              in getIntersectingArcs (Vector x1 (m * x1 + c)) (Vector x2 (m * x2 + c))
                   arcCenter arcStart arcEnd)"

section \<open>Constants of the drawing\<close>

definition cutterKerf :: real where
  "cutterKerf = 10"

definition tailstockFixArcRadius :: real where
  "tailstockFixArcRadius = 175"

definition tailstockFixArcDegrees :: real where
  "tailstockFixArcDegrees = angleFromArcLength tailstockFixArcRadius 115"

definition cutterArcDegrees :: real where
  "cutterArcDegrees = 90"

section \<open>class Arc\<close>

text \<open>
  An arc keeps its angular span and its own rotation. The path it draws is modelled as the
  sequence of its two commands, \<^verbatim>\<open>M start\<close> and
  \<^verbatim>\<open>A radius radius 0 largeArcFlag 0 end\<close>; the printing of the numbers is
  not modelled.
\<close>

record arc =
  arcAngle :: real
  inherentRotation :: real

datatype pathCommand = PathM vector | PathA real real real string real vector

definition generateArcPath :: "arc \<Rightarrow> real \<Rightarrow> pathCommand list" where
  "generateArcPath this radius =
     (let startAngle = inherentRotation this;
          endAngle = startAngle + arcAngle this;
          start = fromPolar radius endAngle;
          endPoint = fromPolar radius startAngle;
          largeArcFlag = (if endAngle - startAngle \<le> 180 then ''0'' else ''1'')
      in [PathM start, PathA radius radius 0 largeArcFlag 0 endPoint])"

section \<open>class Dimension\<close>

text \<open>
  Of a dimension the model keeps the length of its line, the transform of its group and
  its visibility; the placement of the label depends on the rendered text and is left out.
\<close>

record dimension =
  line_x2 :: real
  translate :: vector
  rotate_deg :: real
  visible :: bool

definition Dimension_update :: "dimension \<Rightarrow> vector \<Rightarrow> vector \<Rightarrow> dimension" where
  "Dimension_update this start dir =
     (let len = magnitude dir;
          angle = arg dir
      in this\<lparr>line_x2 := len, translate := start, rotate_deg := angle\<rparr>)"

definition setVisible :: "dimension \<Rightarrow> bool \<Rightarrow> dimension" where
  "setVisible this isVisible = this\<lparr>visible := isVisible\<rparr>"

section \<open>Objects, and the state of the drawing\<close>

text \<open>
  Vector and Cut objects live in a store and are named by references, so that two fields
  holding the same object are seen to do so: \<^verbatim>\<open>clone\<close> copies the reference
  to the centre, not the Vector. A Vector built and consumed within one call (the
  solvers' points, the arguments of \<^verbatim>\<open>Dimension.update\<close>) is a value.
  The state holds the fields of the Drawing and of its CutterAssembly, which share the
  live Cut. Rendering (paths, transforms of the plate and the tailstock, the arcs of the
  stored cuts) is not part of the state; the class toggled on the tailstock arc is the
  flag \<open>hasIntersections\<close>.
\<close>

type_synonym ref = nat

record cut =
  center :: ref
  rotation :: real
  radius :: real
  wasSaved :: bool

record drawing =
  vectorObjs :: "ref \<Rightarrow> vector"
  cutObjs :: "ref \<Rightarrow> cut"
  nextRef :: ref
  cuts :: "ref list"
  currentCut :: ref
  assemblyCenter :: ref
  rotationAngle :: real
  cutterRadius :: real
  workpieceDim :: ref
  cutterArc :: arc
  tailstockFixArc :: arc
  restDim :: dimension
  offCenterDim :: dimension
  distDim :: dimension
  entryPointDim :: dimension
  hasIntersections :: bool

definition newVector :: "real \<Rightarrow> real \<Rightarrow> drawing \<Rightarrow> ref \<times> drawing" where
  "newVector a b d =
     (nextRef d, d\<lparr>vectorObjs := (vectorObjs d)(nextRef d := Vector a b),
                   nextRef := Suc (nextRef d)\<rparr>)"

text \<open>\<^verbatim>\<open>new Cut(center, rotation, radius)\<close>: the flag starts unset.\<close>

definition newCut :: "ref \<Rightarrow> real \<Rightarrow> real \<Rightarrow> drawing \<Rightarrow> ref \<times> drawing" where
  "newCut c rot rad d =
     (nextRef d,
      d\<lparr>cutObjs := (cutObjs d)(nextRef d :=
            \<lparr>center = c, rotation = rot, radius = rad, wasSaved = False\<rparr>),
        nextRef := Suc (nextRef d)\<rparr>)"

definition clone :: "ref \<Rightarrow> drawing \<Rightarrow> ref \<times> drawing" where
  "clone this d =
     newCut (center (cutObjs d this)) (rotation (cutObjs d this)) (radius (cutObjs d this)) d"

text \<open>
  An assignment to a field of the live Cut, \<^verbatim>\<open>this.currentCut.f = v\<close>, changes
  the object that \<open>currentCut\<close> names, in place.
\<close>

definition assignCurrentCut :: "(cut \<Rightarrow> cut) \<Rightarrow> drawing \<Rightarrow> drawing" where
  "assignCurrentCut assign d =
     d\<lparr>cutObjs := (cutObjs d)(currentCut d := assign (cutObjs d (currentCut d)))\<rparr>"

subsection \<open>class CutterAssembly\<close>

definition setWorkpieceDim :: "ref \<Rightarrow> drawing \<Rightarrow> drawing" where
  "setWorkpieceDim dimVec d = d\<lparr>workpieceDim := dimVec\<rparr>"

definition setRadius :: "real \<Rightarrow> drawing \<Rightarrow> drawing" where
  "setRadius rad d =
     (let d = d\<lparr>cutterRadius := rad\<rparr>
      in assignCurrentCut (\<lambda>c. c\<lparr>radius := rad\<rparr>) d)"

text \<open>
  The call in the source passes five arguments, so its \<^verbatim>\<open>0\<close> binds to the
  unused \<^verbatim>\<open>isHorizontal\<close> and \<^verbatim>\<open>y0\<close> takes its default, also 0.
\<close>

definition checkTailstockArc :: "drawing \<Rightarrow> drawing" where
  "checkTailstockArc d =
     (let startAngle = inherentRotation (tailstockFixArc d) + rotationAngle d;
          endAngle = startAngle + arcAngle (tailstockFixArc d);
          intersections = intersectionLineArcHorizontal (vectorObjs d (assemblyCenter d))
                            tailstockFixArcRadius startAngle endAngle 0 0
      in d\<lparr>hasIntersections := (length intersections > 0)\<rparr>)"

definition updateEntryPointDim :: "drawing \<Rightarrow> drawing" where
  "updateEntryPointDim d =
     (let startAngle = inherentRotation (cutterArc d) + rotationAngle d;
          endAngle = startAngle + arcAngle (cutterArc d);
          w = vectorObjs d (workpieceDim d);
          intersections = intersectionLineArcVertical (vectorObjs d (assemblyCenter d))
                            (cutterRadius d + cutterKerf / 2) startAngle endAngle (x w);
          showDim = False;
          (d, showDim) =
             (if length intersections = 1
              then let intersectPoint = intersections ! 0;
                       dy = y w / 2 - y intersectPoint
                   in if dy > 0 \<and> dy < y w / 2
                      then (d\<lparr>entryPointDim :=
                                Dimension_update (entryPointDim d) intersectPoint (Vector 0 dy)\<rparr>,
                            True)
                      else (d, showDim)
              else (d, showDim))
      in d\<lparr>entryPointDim := setVisible (entryPointDim d) showDim\<rparr>)"

definition moveTo :: "ref \<Rightarrow> drawing \<Rightarrow> drawing" where
  "moveTo pos d =
     (let p = vectorObjs d pos;
          d = d\<lparr>assemblyCenter := pos\<rparr>;
          d = assignCurrentCut (\<lambda>c. c\<lparr>center := pos\<rparr>) d;
          d = (if y p < 0
               then d\<lparr>offCenterDim :=
                        Dimension_update (offCenterDim d) (Vector (x p) 0) (Vector 0 (y p))\<rparr>
               else d\<lparr>offCenterDim :=
                        Dimension_update (offCenterDim d) (Vector (x p) (y p)) (Vector 0 (- y p))\<rparr>);
          w = vectorObjs d (workpieceDim d);
          d = d\<lparr>restDim := Dimension_update (restDim d) (Vector 0 (y p))
                              (Vector (x p - cutterRadius d - cutterKerf / 2) 0)\<rparr>;
          d = d\<lparr>distDim := Dimension_update (distDim d) (Vector (x w) (y p))
                              (Vector (x p - x w) 0)\<rparr>;
          mostLeft = x p - cutterRadius d;
          dimVis = (mostLeft > 0 \<and> mostLeft < x w);
          d = d\<lparr>restDim := setVisible (restDim d) dimVis\<rparr>;
          d = d\<lparr>distDim := setVisible (distDim d) dimVis\<rparr>;
          d = d\<lparr>offCenterDim := setVisible (offCenterDim d) (\<bar>y p\<bar> > 1)\<rparr>;
          d = checkTailstockArc d
      in updateEntryPointDim d)"

definition rotate_assembly :: "real \<Rightarrow> drawing \<Rightarrow> drawing" where
  "rotate_assembly angle d =
     (let d = d\<lparr>rotationAngle := js_rem angle 360\<rparr>;
          d = checkTailstockArc d
      in assignCurrentCut (\<lambda>c. c\<lparr>rotation := angle\<rparr>) d)"

subsection \<open>class Drawing\<close>

text \<open>
  The constructor: the live Cut \<^verbatim>\<open>new Cut(new Vector(0, 0), 0, 0)\<close>, an empty
  history, and the assembly with radius 120 at its own \<^verbatim>\<open>new Vector(0, 0)\<close>,
  unrotated, with the workpiece extent \<^verbatim>\<open>new Vector()\<close>. An element is
  rendered until it is hidden.
\<close>

definition newDimension :: dimension where
  "newDimension = \<lparr>line_x2 = 0, translate = Vector 0 0, rotate_deg = 0, visible = True\<rparr>"

definition newDrawing :: drawing where
  "newDrawing =
     \<lparr>vectorObjs = (\<lambda>r. Vector 0 0),
      cutObjs = (\<lambda>r. \<lparr>center = 0, rotation = 0, radius = 0, wasSaved = False\<rparr>),
      nextRef = 4,
      cuts = [],
      currentCut = 1,
      assemblyCenter = 2,
      rotationAngle = 0,
      cutterRadius = 120,
      workpieceDim = 3,
      cutterArc = \<lparr>arcAngle = cutterArcDegrees, inherentRotation = 90\<rparr>,
      tailstockFixArc = \<lparr>arcAngle = tailstockFixArcDegrees,
                         inherentRotation = - tailstockFixArcDegrees / 2\<rparr>,
      restDim = newDimension,
      offCenterDim = newDimension,
      distDim = newDimension,
      entryPointDim = newDimension,
      hasIntersections = False\<rparr>"

definition addCurrentCut :: "drawing \<Rightarrow> drawing" where
  "addCurrentCut d =
     (let (snapshot, d) = clone (currentCut d) d;
          d = d\<lparr>cuts := cuts d @ [snapshot]\<rparr>
      in assignCurrentCut (\<lambda>c. c\<lparr>wasSaved := False\<rparr>) d)"

text \<open>
  \<^verbatim>\<open>selectCut\<close> reads \<^verbatim>\<open>this.cuts[index]\<close>; outside the history
  that is \<^verbatim>\<open>undefined\<close>, and reading its \<^verbatim>\<open>center\<close> raises a
  TypeError. By then the source has run its \<^verbatim>\<open>splice\<close> and, if the flag is
  set, its \<^verbatim>\<open>push\<close>; the model keeps the error only. The index is a position
  in the history, a natural number.
\<close>

datatype error = TypeError

definition selectCut :: "nat \<Rightarrow> drawing \<Rightarrow> error + drawing" where
  "selectCut index d =
     (if index < length (cuts d)
      then let cut = cuts d ! index;
               d = d\<lparr>cuts := take index (cuts d) @ drop (Suc index) (cuts d)\<rparr>;
               d = (if wasSaved (cutObjs d (currentCut d))
                    then let (snapshot, d) = clone (currentCut d) d
                         in d\<lparr>cuts := cuts d @ [snapshot]\<rparr>
                    else d);
               d = assignCurrentCut (\<lambda>c. c\<lparr>center := center (cutObjs d cut)\<rparr>) d;
               d = assignCurrentCut (\<lambda>c. c\<lparr>radius := radius (cutObjs d cut)\<rparr>) d;
               d = assignCurrentCut (\<lambda>c. c\<lparr>rotation := rotation (cutObjs d cut)\<rparr>) d;
               d = assignCurrentCut (\<lambda>c. c\<lparr>wasSaved := True\<rparr>) d;
               d = moveTo (center (cutObjs d cut)) d;
               d = rotate_assembly (rotation (cutObjs d cut)) d;
               d = setRadius (radius (cutObjs d cut)) d
           in Inr d
      else Inl TypeError)"

subsection \<open>Sequences of calls on the assembly\<close>

text \<open>
  What a caller does to the pose: it builds a Vector (as the drag handler does with
  \<^verbatim>\<open>pos.subtract(plateDragOffset)\<close>), moves the assembly to a Vector it
  holds, rotates it, or sets the radius. In the source a reference always names an object;
  here \<open>MoveTo\<close> at a reference not yet handed out reads the store as it is there.
\<close>

datatype call = NewVector real real | MoveTo ref | Rotate real | SetRadius real

fun perform :: "call \<Rightarrow> drawing \<Rightarrow> drawing" where
  "perform (NewVector a b) d = snd (newVector a b d)"
| "perform (MoveTo pos) d = moveTo pos d"
| "perform (Rotate angle) d = rotate_assembly angle d"
| "perform (SetRadius rad) d = setRadius rad d"

fun performAll :: "call list \<Rightarrow> drawing \<Rightarrow> drawing" where
  "performAll [] d = d"
| "performAll (c # cs) d = performAll cs (perform c d)"

section \<open>The normalisation the documentation describes\<close>

text \<open>
  The specification gives the normalisation as \<open>((a mod 360) + 360) mod 360\<close>. The two
  definitions below follow those words, for comparison with the source's functions.
\<close>

definition normalizeAngle_spec :: "real \<Rightarrow> real" where
  "normalizeAngle_spec a = js_rem (js_rem a 360 + 360) 360"

definition isAngleBetween_spec :: "real \<Rightarrow> real \<Rightarrow> real \<Rightarrow> bool" where
  "isAngleBetween_spec angle startAngle endAngle =
     (let a = normalizeAngle_spec angle;
          s = normalizeAngle_spec startAngle;
          e = normalizeAngle_spec endAngle
      in if s \<le> e then s \<le> a \<and> a \<le> e else s \<le> a \<or> a \<le> e)"

section \<open>Evaluation of the built-in functions\<close>

lemma x_Vector [simp]: "x (Vector a b) = a"
  by (simp add: Vector_def)

lemma y_Vector [simp]: "y (Vector a b) = b"
  by (simp add: Vector_def)

lemma Vector_eq_iff [simp]: "(Vector a b = Vector c d) = (a = c \<and> b = d)"
  by (simp add: Vector_def)

lemma Vector_x_y [simp]: "Vector (x v) (y v) = (v::vector)"
  by (simp add: Vector_def)

lemma trunc_of_int [simp]: "trunc (of_int n) = n"
  by (simp add: trunc_def)

lemma trunc_zero: "- 1 < q \<Longrightarrow> q < 1 \<Longrightarrow> trunc q = 0"
  unfolding trunc_def by (simp split: if_splits) linarith

lemma js_rem_small: "0 \<le> a \<Longrightarrow> a < b \<Longrightarrow> js_rem a b = a"
proof -
  assume a: "0 \<le> a" and b: "a < b"
  have "0 \<le> a / b" "a / b < 1" using a b by simp_all
  then have "trunc (a / b) = 0" by (intro trunc_zero) simp_all
  then show ?thesis by (simp add: js_rem_def)
qed

lemma js_rem_small_neg: "a \<le> 0 \<Longrightarrow> - b < a \<Longrightarrow> js_rem a b = a"
proof -
  assume a: "a \<le> 0" and b: "- b < a"
  then have pos: "0 < b" by simp
  have "a / b \<le> 0" using a pos by (simp add: divide_nonpos_pos)
  moreover have "- 1 < a / b" using b pos by (simp add: pos_less_divide_eq)
  ultimately have "trunc (a / b) = 0" by (intro trunc_zero) simp_all
  then show ?thesis by (simp add: js_rem_def)
qed

lemma js_rem_shift: "0 < b \<Longrightarrow> 0 \<le> a \<Longrightarrow> js_rem (a + b) b = js_rem a b"
proof -
  assume b: "0 < b" and a: "0 \<le> a"
  have q: "(a + b) / b = a / b + 1" using b by (simp add: add_divide_distrib)
  have "0 \<le> a / b" using a b by simp
  then show ?thesis
    by (simp add: js_rem_def trunc_def q algebra_simps)
qed

lemma js_rem_range:
  assumes "0 < b"
  shows "\<bar>js_rem a b\<bar> < b"
    and "0 \<le> a * js_rem a b"
    and "0 \<le> a \<Longrightarrow> 0 \<le> js_rem a b"
    and "a \<le> 0 \<Longrightarrow> js_rem a b \<le> 0"
proof -
  have fl: "of_int \<lfloor>a / b\<rfloor> * b \<le> a" "a < (of_int \<lfloor>a / b\<rfloor> + 1) * b"
    using assms by (rule floor_divide_lower, rule floor_divide_upper)
  have ce: "a \<le> of_int \<lceil>a / b\<rceil> * b" "(of_int \<lceil>a / b\<rceil> - 1) * b < a"
    using assms by (rule ceiling_divide_upper, rule ceiling_divide_lower)
  have s: "0 \<le> a / b \<longleftrightarrow> 0 \<le> a" using assms by (simp add: zero_le_divide_iff)
  show p: "0 \<le> a \<Longrightarrow> 0 \<le> js_rem a b"
    using fl s by (simp add: js_rem_def trunc_def algebra_simps)
  show n: "a \<le> 0 \<Longrightarrow> js_rem a b \<le> 0"
    using ce fl s by (cases "a = 0") (simp_all add: js_rem_def trunc_def algebra_simps)
  show "\<bar>js_rem a b\<bar> < b"
    using fl ce s
    by (cases "0 \<le> a") (simp_all add: js_rem_def trunc_def algebra_simps abs_less_iff)
  show "0 \<le> a * js_rem a b"
  proof (cases "0 \<le> a")
    case True
    with p show ?thesis by simp
  next
    case False
    with n have "a \<le> 0" "js_rem a b \<le> 0" by simp_all
    then show ?thesis by (rule mult_nonpos_nonpos)
  qed
qed

section \<open>normalizeAngle\<close>

lemma normalizeAngle_small: "- 360 \<le> a \<Longrightarrow> a < 0 \<Longrightarrow> normalizeAngle a = a + 360"
  by (simp add: normalizeAngle_def js_rem_small)

lemma normalizeAngle_base: "0 \<le> a \<Longrightarrow> a < 360 \<Longrightarrow> normalizeAngle a = a"
  by (simp add: normalizeAngle_def js_rem_shift js_rem_small)

lemma normalizeAngle_below: "- 720 < a \<Longrightarrow> a < - 360 \<Longrightarrow> normalizeAngle a = a + 360"
  by (simp add: normalizeAngle_def js_rem_small_neg)

text \<open>
  C1 (the source departs from its documentation). The claim is that \<open>normalizeAngle\<close>
  always returns a value in \<open>[0, 360)\<close>, has period 360 and is idempotent. The source
  computes \<^verbatim>\<open>(angle + 360) % 360\<close>, and the remainder keeps the sign of
  \<open>angle + 360\<close>: at \<open>-400\<close> the result is \<open>-40\<close>, which is negative, differs from the
  result \<open>320\<close> at \<open>-400 + 360\<close>, and is not a fixed point. From \<open>-360\<close> upwards the
  function is as documented (\<open>normalizeAngle_range\<close>, \<open>normalizeAngle_periodic\<close>,
  \<open>normalizeAngle_idempotent\<close>, \<open>normalizeAngle_agrees\<close> below).
\<close>

theorem normalizeAngle_below_minus_360:
  "normalizeAngle (- 400) = - 40 \<and> normalizeAngle (- 400 + 360 * 1) = 320
   \<and> normalizeAngle (normalizeAngle (- 400)) = 320 \<and> normalizeAngle_spec (- 400) = 320"
proof -
  have a: "normalizeAngle (- 400) = - 40"
    using normalizeAngle_below [of "- 400"] by simp
  have b: "normalizeAngle (- 40) = 320"
    using normalizeAngle_small [of "- 40"] by simp
  have c: "js_rem (- 400) 360 = js_rem (- 40) 360"
    by (simp add: js_rem_def trunc_def) linarith
  have d: "js_rem (- 40) 360 = - 40"
    by (rule js_rem_small_neg) simp_all
  have e: "normalizeAngle_spec (- 400) = 320"
    by (simp add: normalizeAngle_spec_def c d js_rem_small)
  from a b e show ?thesis by simp
qed

lemma normalizeAngle_range: "- 360 \<le> a \<Longrightarrow> 0 \<le> normalizeAngle a \<and> normalizeAngle a < 360"
  using js_rem_range(1,3) [of 360 "a + 360"] by (simp add: normalizeAngle_def abs_less_iff)

lemma js_rem_add_period: "0 < b \<Longrightarrow> 0 \<le> a \<Longrightarrow> js_rem (a + b * of_nat n) b = js_rem a b"
proof (induction n)
  case 0
  show ?case by simp
next
  case (Suc n)
  have "0 \<le> a + b * of_nat n" using Suc.prems by simp
  then have "js_rem ((a + b * of_nat n) + b) b = js_rem (a + b * of_nat n) b"
    using Suc.prems by (intro js_rem_shift) simp_all
  then show ?case using Suc by (simp add: algebra_simps)
qed

lemma normalizeAngle_periodic:
  "- 360 \<le> a \<Longrightarrow> normalizeAngle (a + 360 * of_nat n) = normalizeAngle a"
  using js_rem_add_period [of 360 "a + 360" n] by (simp add: normalizeAngle_def algebra_simps)

lemma normalizeAngle_idempotent:
  "- 360 \<le> a \<Longrightarrow> normalizeAngle (normalizeAngle a) = normalizeAngle a"
  using normalizeAngle_range [of a] by (simp add: normalizeAngle_base)

lemma normalizeAngle_agrees: "- 360 \<le> a \<Longrightarrow> normalizeAngle a = normalizeAngle_spec a"
proof -
  assume low: "- 360 \<le> a"
  consider "0 \<le> a" | "- 360 < a" "a < 0" | "a = - 360" using low by linarith
  then show ?thesis
  proof cases
    case 1
    have r: "0 \<le> js_rem a 360" "js_rem a 360 < 360"
      using js_rem_range(1,3) [of 360 a] 1 by (simp_all add: abs_less_iff)
    have "normalizeAngle_spec a = js_rem (js_rem a 360) 360"
      using r by (simp add: normalizeAngle_spec_def js_rem_shift)
    also have "\<dots> = js_rem a 360" using r by (rule js_rem_small)
    finally show ?thesis using 1 by (simp add: normalizeAngle_def js_rem_shift)
  next
    case 2
    then have "js_rem a 360 = a" by (intro js_rem_small_neg) simp_all
    then show ?thesis by (simp add: normalizeAngle_def normalizeAngle_spec_def)
  next
    case 3
    then show ?thesis
      by (simp add: normalizeAngle_def normalizeAngle_spec_def js_rem_def trunc_def)
  qed
qed

section \<open>Angular-range membership\<close>

lemma isAngleBetween_agrees:
  "- 360 \<le> a \<Longrightarrow> - 360 \<le> s \<Longrightarrow> - 360 \<le> e \<Longrightarrow>
     isAngleBetween a s e = isAngleBetween_spec a s e"
  by (simp add: isAngleBetween_def isAngleBetween_spec_def normalizeAngle_agrees)

lemma isAngleBetween_seam_inside: "isAngleBetween 0 350 10"
  by (simp add: isAngleBetween_def normalizeAngle_base Let_def)

lemma isAngleBetween_seam_outside: "\<not> isAngleBetween 180 350 10"
  by (simp add: isAngleBetween_def normalizeAngle_base Let_def)

lemma isAngleBetween_boundaries: "isAngleBetween s s e \<and> isAngleBetween e s e"
  by (simp add: isAngleBetween_def Let_def)

text \<open>
  C3 (the source departs from its documentation). The claim is that \<open>isAngleBetween\<close>
  normalises its three inputs to \<open>[0, 360)\<close> and then tests the closed interval, or the
  two half-lines when the span crosses the seam. For inputs from \<open>-360\<close> upwards the
  source does so (\<open>isAngleBetween_agrees\<close>), and the two examples at the seam and the
  inclusive boundaries are as claimed, but the normalisation is that of C1: the angle
  \<open>-400\<close>, which is \<open>320\<close> in \<open>[0, 360)\<close> and so lies in the span from 300 to 350, is
  compared as \<open>-40\<close> and rejected.
\<close>

theorem isAngleBetween_below_minus_360:
  "\<not> isAngleBetween (- 400) 300 350 \<and> isAngleBetween_spec (- 400) 300 350"
proof -
  have a: "normalizeAngle (- 400) = - 40"
    using normalizeAngle_below [of "- 400"] by simp
  have c: "js_rem (- 400) 360 = - 40"
    by (simp add: js_rem_def trunc_def)
  have s: "0 \<le> b \<Longrightarrow> b < 360 \<Longrightarrow> normalizeAngle_spec b = b" for b
    by (simp add: normalizeAngle_spec_def js_rem_small js_rem_shift)
  have e: "normalizeAngle_spec (- 400) = 320"
    by (simp add: normalizeAngle_spec_def c js_rem_small)
  show ?thesis
    by (simp add: isAngleBetween_def isAngleBetween_spec_def a e s normalizeAngle_base Let_def)
qed

section \<open>The vertical line and the circle of radius 10\<close>

lemma normalizeAngle_360: "normalizeAngle 360 = 0"
  by (simp add: normalizeAngle_def js_rem_def trunc_def)

lemma arg_up: "0 < b \<Longrightarrow> arg (Vector 0 b) = 90"
  by (simp add: arg_def atan2_def)

lemma arg_down: "b < 0 \<Longrightarrow> arg (Vector 0 b) = - 90"
  by (simp add: arg_def atan2_def)

lemma arg_right: "0 < a \<Longrightarrow> arg (Vector a 0) = 0"
  by (simp add: arg_def atan2_def)

lemma arg_left: "a < 0 \<Longrightarrow> arg (Vector a 0) = 180"
  by (simp add: arg_def atan2_def)

lemma arg_origin: "arg (Vector 0 0) = 0"
  by (simp add: arg_def atan2_def)

lemma subtract_Vector: "subtract (Vector a b) (Vector c d) = Vector (a - c) (b - d)"
  by (simp add: subtract_def)

lemma sqrt_100: "sqrt 100 = 10"
  by (rule real_sqrt_unique) simp_all

lemma isAngleBetween_0_360: "isAngleBetween a 0 360 = (normalizeAngle a = 0)"
  by (auto simp add: isAngleBetween_def normalizeAngle_360 normalizeAngle_base Let_def)

lemma vertical_circle_0: "intersectionLineArcVertical (Vector 0 0) 10 0 360 0 = []"
  by (simp add: intersectionLineArcVertical_def getIntersectingArcs_def isWithinArc_def
      sqrt_100 subtract_Vector arg_up arg_down isAngleBetween_0_360 normalizeAngle_base
      normalizeAngle_small Let_def)

lemma vertical_circle_10:
  "intersectionLineArcVertical (Vector 0 0) 10 0 360 10 = [Vector 10 0, Vector 10 0]"
  by (simp add: intersectionLineArcVertical_def getIntersectingArcs_def isWithinArc_def
      subtract_Vector arg_right isAngleBetween_0_360 normalizeAngle_base Let_def)

lemma vertical_circle_11: "intersectionLineArcVertical (Vector 0 0) 10 0 360 11 = []"
  by (simp add: intersectionLineArcVertical_def Let_def)

text \<open>
  C2, as claimed: on the circle with centre \<open>(0, 0)\<close>, radius 10 and the span from 0 to
  360, the vertical solver returns the two points \<open>(0, 10)\<close> and \<open>(0, -10)\<close> at
  \<open>x0 = 0\<close> and the single point \<open>(10, 0)\<close> at \<open>x0 = 10\<close>. It does not: the end angle
  360 normalises to 0, so the span is the single angle 0 and both points at \<open>x0 = 0\<close> are
  filtered out; and at the tangent the two coincident candidates are both tested and both
  kept.
\<close>

theorem vertical_full_circle_counterexample:
  "intersectionLineArcVertical (Vector 0 0) 10 0 360 0 = []
   \<and> length (intersectionLineArcVertical (Vector 0 0) 10 0 360 10) = 2"
  by (simp add: vertical_circle_0 vertical_circle_10)

text \<open>
  C2, amended: with centre \<open>(0, 0)\<close>, radius 10, \<open>arcStart = 0\<close> and \<open>arcEnd = 360\<close> the
  vertical solver returns no point at \<open>x0 = 0\<close>, the tangent point \<open>(10, 0)\<close> twice at
  \<open>x0 = 10\<close>, and no point at \<open>x0 = 11\<close>.
\<close>

theorem vertical_span_0_360:
  "intersectionLineArcVertical (Vector 0 0) 10 0 360 0 = []
   \<and> intersectionLineArcVertical (Vector 0 0) 10 0 360 10 = [Vector 10 0, Vector 10 0]
   \<and> intersectionLineArcVertical (Vector 0 0) 10 0 360 11 = []"
  by (simp add: vertical_circle_0 vertical_circle_10 vertical_circle_11)

section \<open>The two polar conventions\<close>

lemma fromPolar_eq: "fromPolar r t = Vector (r * cos (t * pi / 180)) (r * sin (t * pi / 180))"
  by (simp add: fromPolar_def degreesToRadians_def Let_def)

lemma polarToCartesian_fromPolar: "polarToCartesian r t = fromPolar r (t - 90)"
  by (simp add: polarToCartesian_def fromPolar_eq Let_def)

text \<open>
  C4, as claimed: \<open>fromPolar r theta\<close> is the point at angle \<open>theta - 90\<close> degrees. It is
  not: at radius 1 and angle 0 it is \<open>(1, 0)\<close>, and the claimed formula gives \<open>(0, -1)\<close>.
\<close>

theorem fromPolar_offset_counterexample:
  "fromPolar 1 0 \<noteq> Vector (1 * cos ((0 - 90) * pi / 180)) (1 * sin ((0 - 90) * pi / 180))"
  by (simp add: fromPolar_eq)

text \<open>
  C4, amended: \<open>fromPolar r theta\<close> is \<open>(r cos (theta pi / 180), r sin (theta pi / 180))\<close>,
  with no offset; the offset of 90 degrees is that of \<open>polarToCartesian\<close>, which is
  \<open>fromPolar\<close> at \<open>theta - 90\<close>; and the arc-path generator takes both end points of its
  path from \<open>fromPolar\<close>, so it draws in the convention without offset.
\<close>

theorem fromPolar_convention:
  "fromPolar r t = Vector (r * cos (t * pi / 180)) (r * sin (t * pi / 180))
   \<and> polarToCartesian r t = fromPolar r (t - 90)
   \<and> generateArcPath a r =
       [PathM (fromPolar r (inherentRotation a + arcAngle a)),
        PathA r r 0 (if arcAngle a \<le> 180 then ''0'' else ''1'') 0
          (fromPolar r (inherentRotation a))]"
  by (simp add: fromPolar_eq [symmetric] polarToCartesian_fromPolar generateArcPath_def Let_def)


section \<open>What the solvers return\<close>

lemma getIntersectingArcs_filter:
  "getIntersectingArcs p1 p2 c s e = filter (isWithinArc c s e) [p1, p2]"
  by (simp add: getIntersectingArcs_def Let_def)

lemma getIntersectingArcs_same:
  "getIntersectingArcs p p c s e = (if isWithinArc c s e p then [p, p] else [])"
  by (simp add: getIntersectingArcs_def Let_def)

lemma length_getIntersectingArcs: "length (getIntersectingArcs p1 p2 c s e) \<le> 2"
  by (simp add: getIntersectingArcs_def Let_def)

lemma set_getIntersectingArcs:
  "p \<in> set (getIntersectingArcs p1 p2 c s e) \<Longrightarrow>
     (p = p1 \<or> p = p2) \<and> isAngleBetween (arg (subtract p c)) s e"
  by (auto simp add: getIntersectingArcs_def isWithinArc_def Let_def split: if_splits)

lemma vertical_points:
  "p \<in> set (intersectionLineArcVertical c r s e x0) \<Longrightarrow>
     isAngleBetween (arg (subtract p c)) s e \<and> x p = x0"
  by (auto simp add: intersectionLineArcVertical_def Let_def split: if_splits
      dest!: set_getIntersectingArcs)

lemma horizontal_points:
  "p \<in> set (intersectionLineArcHorizontal c r s e ih y0) \<Longrightarrow>
     isAngleBetween (arg (subtract p c)) s e \<and> y p = y0"
  by (auto simp add: intersectionLineArcHorizontal_def Let_def split: if_splits
      dest!: set_getIntersectingArcs)

lemma sloped_points:
  "p \<in> set (intersectionLineArcAngle c r s e m k) \<Longrightarrow>
     isAngleBetween (arg (subtract p c)) s e \<and> y p = m * x p + k"
  by (auto simp add: intersectionLineArcAngle_def Let_def split: if_splits
      dest!: set_getIntersectingArcs)

lemma solver_lengths:
  "length (intersectionLineArcVertical c r s e x0) \<le> 2"
  "length (intersectionLineArcHorizontal c r s e ih y0) \<le> 2"
  "length (intersectionLineArcAngle c r s e m k) \<le> 2"
  by (simp_all add: intersectionLineArcVertical_def intersectionLineArcHorizontal_def
      intersectionLineArcAngle_def Let_def length_getIntersectingArcs)

lemma vertical_unit: "intersectionLineArcVertical (Vector 0 0) 1 0 90 0 = [Vector 0 1]"
  by (simp add: intersectionLineArcVertical_def getIntersectingArcs_def isWithinArc_def
      subtract_Vector arg_up arg_down isAngleBetween_def normalizeAngle_base
      normalizeAngle_small Let_def)

lemma horizontal_unit: "intersectionLineArcHorizontal (Vector 0 0) 1 0 90 ih 0 = [Vector 1 0]"
  by (simp add: intersectionLineArcHorizontal_def getIntersectingArcs_def isWithinArc_def
      subtract_Vector arg_left arg_right isAngleBetween_def normalizeAngle_base
      normalizeAngle_small Let_def)

lemma sloped_unit: "intersectionLineArcAngle (Vector 0 0) 1 0 90 0 0 = [Vector 1 0]"
  by (simp add: intersectionLineArcAngle_def getIntersectingArcs_def isWithinArc_def
      subtract_Vector arg_left arg_right isAngleBetween_def normalizeAngle_base
      normalizeAngle_small Let_def)

text \<open>
  C9. Every point that one of the three solvers returns passes the angular-membership
  test against the span of the arc, taken at the angle of the point as seen from the
  centre, and lies on the queried line: \<open>x p = x0\<close> for the vertical solver,
  \<open>y p = y0\<close> for the horizontal one, \<open>y p = m * x p + k\<close> for the sloped one. No
  solver returns more than two points.
\<close>

theorem solver_postcondition:
  "(\<forall>p \<in> set (intersectionLineArcVertical c r s e x0).
       isAngleBetween (arg (subtract p c)) s e \<and> x p = x0)
   \<and> (\<forall>p \<in> set (intersectionLineArcHorizontal c r s e ih y0).
       isAngleBetween (arg (subtract p c)) s e \<and> y p = y0)
   \<and> (\<forall>p \<in> set (intersectionLineArcAngle c r s e m k).
       isAngleBetween (arg (subtract p c)) s e \<and> y p = m * x p + k)
   \<and> length (intersectionLineArcVertical c r s e x0) \<le> 2
   \<and> length (intersectionLineArcHorizontal c r s e ih y0) \<le> 2
   \<and> length (intersectionLineArcAngle c r s e m k) \<le> 2"
  by (intro conjI ballI vertical_points horizontal_points sloped_points solver_lengths)

theorem solver_postcondition_witness:
  "Vector 0 1 \<in> set (intersectionLineArcVertical (Vector 0 0) 1 0 90 0)
   \<and> isAngleBetween (arg (subtract (Vector 0 1) (Vector 0 0))) 0 90 \<and> x (Vector 0 1) = 0
   \<and> Vector 1 0 \<in> set (intersectionLineArcHorizontal (Vector 0 0) 1 0 90 0 0)
   \<and> isAngleBetween (arg (subtract (Vector 1 0) (Vector 0 0))) 0 90 \<and> y (Vector 1 0) = 0
   \<and> Vector 1 0 \<in> set (intersectionLineArcAngle (Vector 0 0) 1 0 90 0 0)
   \<and> y (Vector 1 0) = 0 * x (Vector 1 0) + 0
   \<and> length (intersectionLineArcVertical (Vector 0 0) 1 0 90 0) \<le> 2"
proof -
  have v: "Vector 0 1 \<in> set (intersectionLineArcVertical (Vector 0 0) 1 0 90 0)"
    by (simp add: vertical_unit)
  have h: "Vector 1 0 \<in> set (intersectionLineArcHorizontal (Vector 0 0) 1 0 90 0 0)"
    by (simp add: horizontal_unit)
  have a: "Vector 1 0 \<in> set (intersectionLineArcAngle (Vector 0 0) 1 0 90 0 0)"
    by (simp add: sloped_unit)
  from v h a solver_postcondition [of "Vector 0 0" 1 0 90 0 0 0 0 0]
  show ?thesis by blast
qed


section \<open>Degenerate geometry in the solvers\<close>

lemma vertical_negative:
  "r * r - (x0 - x c) * (x0 - x c) < 0 \<Longrightarrow> intersectionLineArcVertical c r s e x0 = []"
  by (simp add: intersectionLineArcVertical_def)

lemma horizontal_negative:
  "r * r - (y0 - y c) * (y0 - y c) < 0 \<Longrightarrow> intersectionLineArcHorizontal c r s e ih y0 = []"
  by (simp add: intersectionLineArcHorizontal_def)

lemma sloped_negative:
  "(-2 * x c + 2 * m * (k - y c)) * (-2 * x c + 2 * m * (k - y c))
     - 4 * (1 + m * m) * (x c * x c + (k - y c) * (k - y c) - r * r) < 0
   \<Longrightarrow> intersectionLineArcAngle c r s e m k = []"
  by (simp add: intersectionLineArcAngle_def Let_def)

lemma subtract_self: "subtract p p = Vector 0 0"
  by (simp add: subtract_def)

lemma vertical_tangent:
  "r * r - (x0 - x c) * (x0 - x c) = 0 \<Longrightarrow>
   intersectionLineArcVertical c r s e x0 =
     (if isWithinArc c s e (Vector x0 (y c)) then [Vector x0 (y c), Vector x0 (y c)] else [])"
  by (simp add: intersectionLineArcVertical_def getIntersectingArcs_same Let_def)

lemma vertical_zero_radius:
  "intersectionLineArcVertical c 0 s e x0 =
     (if x0 = x c \<and> isAngleBetween 0 s e then [c, c] else [])"
proof (cases "x0 = x c")
  case True
  then show ?thesis
    by (simp add: intersectionLineArcVertical_def getIntersectingArcs_same isWithinArc_def
        subtract_self arg_origin Let_def)
next
  case False
  then have "0 * 0 - (x0 - x c) * (x0 - x c) < 0"
    using zero_less_power2 [of "x0 - x c"] by (simp add: power2_eq_square)
  then show ?thesis using False by (simp add: intersectionLineArcVertical_def)
qed

lemma horizontal_zero_radius:
  "intersectionLineArcHorizontal c 0 s e ih y0 =
     (if y0 = y c \<and> isAngleBetween 0 s e then [c, c] else [])"
proof (cases "y0 = y c")
  case True
  then show ?thesis
    by (simp add: intersectionLineArcHorizontal_def getIntersectingArcs_same isWithinArc_def
        subtract_self arg_origin Let_def)
next
  case False
  then have "0 * 0 - (y0 - y c) * (y0 - y c) < 0"
    using zero_less_power2 [of "y0 - y c"] by (simp add: power2_eq_square)
  then show ?thesis using False by (simp add: intersectionLineArcHorizontal_def)
qed

section \<open>What each operation changes\<close>

lemma assignCurrentCut_frame [simp]:
  "vectorObjs (assignCurrentCut f d) = vectorObjs d"
  "nextRef (assignCurrentCut f d) = nextRef d"
  "cuts (assignCurrentCut f d) = cuts d"
  "currentCut (assignCurrentCut f d) = currentCut d"
  "assemblyCenter (assignCurrentCut f d) = assemblyCenter d"
  "rotationAngle (assignCurrentCut f d) = rotationAngle d"
  "cutterRadius (assignCurrentCut f d) = cutterRadius d"
  "workpieceDim (assignCurrentCut f d) = workpieceDim d"
  "cutterArc (assignCurrentCut f d) = cutterArc d"
  "tailstockFixArc (assignCurrentCut f d) = tailstockFixArc d"
  "entryPointDim (assignCurrentCut f d) = entryPointDim d"
  "hasIntersections (assignCurrentCut f d) = hasIntersections d"
  "cutObjs (assignCurrentCut f d) = (cutObjs d)(currentCut d := f (cutObjs d (currentCut d)))"
  by (simp_all add: assignCurrentCut_def)

lemma checkTailstockArc_frame [simp]:
  "vectorObjs (checkTailstockArc d) = vectorObjs d"
  "cutObjs (checkTailstockArc d) = cutObjs d"
  "nextRef (checkTailstockArc d) = nextRef d"
  "cuts (checkTailstockArc d) = cuts d"
  "currentCut (checkTailstockArc d) = currentCut d"
  "assemblyCenter (checkTailstockArc d) = assemblyCenter d"
  "rotationAngle (checkTailstockArc d) = rotationAngle d"
  "cutterRadius (checkTailstockArc d) = cutterRadius d"
  "workpieceDim (checkTailstockArc d) = workpieceDim d"
  "cutterArc (checkTailstockArc d) = cutterArc d"
  "tailstockFixArc (checkTailstockArc d) = tailstockFixArc d"
  "entryPointDim (checkTailstockArc d) = entryPointDim d"
  by (simp_all add: checkTailstockArc_def Let_def)

lemma updateEntryPointDim_frame [simp]:
  "vectorObjs (updateEntryPointDim d) = vectorObjs d"
  "cutObjs (updateEntryPointDim d) = cutObjs d"
  "nextRef (updateEntryPointDim d) = nextRef d"
  "cuts (updateEntryPointDim d) = cuts d"
  "currentCut (updateEntryPointDim d) = currentCut d"
  "assemblyCenter (updateEntryPointDim d) = assemblyCenter d"
  "rotationAngle (updateEntryPointDim d) = rotationAngle d"
  "cutterRadius (updateEntryPointDim d) = cutterRadius d"
  "workpieceDim (updateEntryPointDim d) = workpieceDim d"
  "cutterArc (updateEntryPointDim d) = cutterArc d"
  "tailstockFixArc (updateEntryPointDim d) = tailstockFixArc d"
  "hasIntersections (updateEntryPointDim d) = hasIntersections d"
  by (simp_all add: updateEntryPointDim_def Let_def split: prod.splits)

lemma moveTo_frame [simp]:
  "vectorObjs (moveTo pos d) = vectorObjs d"
  "nextRef (moveTo pos d) = nextRef d"
  "cuts (moveTo pos d) = cuts d"
  "currentCut (moveTo pos d) = currentCut d"
  "assemblyCenter (moveTo pos d) = pos"
  "rotationAngle (moveTo pos d) = rotationAngle d"
  "cutterRadius (moveTo pos d) = cutterRadius d"
  "workpieceDim (moveTo pos d) = workpieceDim d"
  "cutterArc (moveTo pos d) = cutterArc d"
  "tailstockFixArc (moveTo pos d) = tailstockFixArc d"
  "cutObjs (moveTo pos d) =
     (cutObjs d)(currentCut d := (cutObjs d (currentCut d))\<lparr>center := pos\<rparr>)"
  by (simp_all add: moveTo_def Let_def)

lemma rotate_assembly_frame [simp]:
  "vectorObjs (rotate_assembly a d) = vectorObjs d"
  "nextRef (rotate_assembly a d) = nextRef d"
  "cuts (rotate_assembly a d) = cuts d"
  "currentCut (rotate_assembly a d) = currentCut d"
  "assemblyCenter (rotate_assembly a d) = assemblyCenter d"
  "rotationAngle (rotate_assembly a d) = js_rem a 360"
  "cutterRadius (rotate_assembly a d) = cutterRadius d"
  "workpieceDim (rotate_assembly a d) = workpieceDim d"
  "cutterArc (rotate_assembly a d) = cutterArc d"
  "tailstockFixArc (rotate_assembly a d) = tailstockFixArc d"
  "entryPointDim (rotate_assembly a d) = entryPointDim d"
  "cutObjs (rotate_assembly a d) =
     (cutObjs d)(currentCut d := (cutObjs d (currentCut d))\<lparr>rotation := a\<rparr>)"
  by (simp_all add: rotate_assembly_def Let_def)

lemma setRadius_frame [simp]:
  "vectorObjs (setRadius r d) = vectorObjs d"
  "nextRef (setRadius r d) = nextRef d"
  "cuts (setRadius r d) = cuts d"
  "currentCut (setRadius r d) = currentCut d"
  "assemblyCenter (setRadius r d) = assemblyCenter d"
  "rotationAngle (setRadius r d) = rotationAngle d"
  "cutterRadius (setRadius r d) = r"
  "workpieceDim (setRadius r d) = workpieceDim d"
  "cutterArc (setRadius r d) = cutterArc d"
  "tailstockFixArc (setRadius r d) = tailstockFixArc d"
  "entryPointDim (setRadius r d) = entryPointDim d"
  "hasIntersections (setRadius r d) = hasIntersections d"
  "cutObjs (setRadius r d) =
     (cutObjs d)(currentCut d := (cutObjs d (currentCut d))\<lparr>radius := r\<rparr>)"
  by (simp_all add: setRadius_def Let_def)

lemma newVector_frame [simp]:
  "fst (newVector a b d) = nextRef d"
  "vectorObjs (snd (newVector a b d)) = (vectorObjs d)(nextRef d := Vector a b)"
  "nextRef (snd (newVector a b d)) = Suc (nextRef d)"
  "cutObjs (snd (newVector a b d)) = cutObjs d"
  "cuts (snd (newVector a b d)) = cuts d"
  "currentCut (snd (newVector a b d)) = currentCut d"
  "assemblyCenter (snd (newVector a b d)) = assemblyCenter d"
  "rotationAngle (snd (newVector a b d)) = rotationAngle d"
  "cutterRadius (snd (newVector a b d)) = cutterRadius d"
  "workpieceDim (snd (newVector a b d)) = workpieceDim d"
  "cutterArc (snd (newVector a b d)) = cutterArc d"
  "entryPointDim (snd (newVector a b d)) = entryPointDim d"
  by (simp_all add: newVector_def)

lemma setWorkpieceDim_frame [simp]:
  "vectorObjs (setWorkpieceDim w d) = vectorObjs d"
  "nextRef (setWorkpieceDim w d) = nextRef d"
  "cutObjs (setWorkpieceDim w d) = cutObjs d"
  "cuts (setWorkpieceDim w d) = cuts d"
  "currentCut (setWorkpieceDim w d) = currentCut d"
  "assemblyCenter (setWorkpieceDim w d) = assemblyCenter d"
  "rotationAngle (setWorkpieceDim w d) = rotationAngle d"
  "cutterRadius (setWorkpieceDim w d) = cutterRadius d"
  "workpieceDim (setWorkpieceDim w d) = w"
  "cutterArc (setWorkpieceDim w d) = cutterArc d"
  "entryPointDim (setWorkpieceDim w d) = entryPointDim d"
  by (simp_all add: setWorkpieceDim_def)

lemma clone_frame [simp]:
  "fst (clone this d) = nextRef d"
  "vectorObjs (snd (clone this d)) = vectorObjs d"
  "nextRef (snd (clone this d)) = Suc (nextRef d)"
  "cuts (snd (clone this d)) = cuts d"
  "currentCut (snd (clone this d)) = currentCut d"
  "cutObjs (snd (clone this d)) = (cutObjs d)(nextRef d :=
     \<lparr>center = center (cutObjs d this), rotation = rotation (cutObjs d this),
      radius = radius (cutObjs d this), wasSaved = False\<rparr>)"
  by (simp_all add: clone_def newCut_def)

lemma addCurrentCut_frame [simp]:
  "vectorObjs (addCurrentCut d) = vectorObjs d"
  "nextRef (addCurrentCut d) = Suc (nextRef d)"
  "cuts (addCurrentCut d) = cuts d @ [nextRef d]"
  "currentCut (addCurrentCut d) = currentCut d"
  by (simp_all add: addCurrentCut_def Let_def split_beta)

lemma cutObjs_addCurrentCut:
  "cutObjs (addCurrentCut d) =
     (cutObjs d)(nextRef d :=
        \<lparr>center = center (cutObjs d (currentCut d)),
         rotation = rotation (cutObjs d (currentCut d)),
         radius = radius (cutObjs d (currentCut d)), wasSaved = False\<rparr>,
      currentCut d :=
        (if currentCut d = nextRef d
         then \<lparr>center = center (cutObjs d (currentCut d)),
               rotation = rotation (cutObjs d (currentCut d)),
               radius = radius (cutObjs d (currentCut d)), wasSaved = False\<rparr>
         else cutObjs d (currentCut d))\<lparr>wasSaved := False\<rparr>)"
  by (simp add: addCurrentCut_def Let_def split_beta)

lemma visible_updateEntryPointDim:
  "visible (entryPointDim (updateEntryPointDim d)) =
     (let w = vectorObjs d (workpieceDim d);
          startAngle = inherentRotation (cutterArc d) + rotationAngle d;
          ps = intersectionLineArcVertical (vectorObjs d (assemblyCenter d))
                 (cutterRadius d + cutterKerf / 2) startAngle
                 (startAngle + arcAngle (cutterArc d)) (x w)
      in length ps = 1 \<and> 0 < y w / 2 - y (ps ! 0) \<and> y w / 2 - y (ps ! 0) < y w / 2)"
  by (simp add: updateEntryPointDim_def Let_def setVisible_def split: prod.splits)

lemma hasIntersections_checkTailstockArc:
  "hasIntersections (checkTailstockArc d) =
     (let startAngle = inherentRotation (tailstockFixArc d) + rotationAngle d
      in intersectionLineArcHorizontal (vectorObjs d (assemblyCenter d)) tailstockFixArcRadius
           startAngle (startAngle + arcAngle (tailstockFixArc d)) 0 0 \<noteq> [])"
  by (simp add: checkTailstockArc_def Let_def)

lemma selectCut_out_of_range: "length (cuts g) \<le> index \<Longrightarrow> selectCut index g = Inl TypeError"
  by (simp add: selectCut_def)

section \<open>The entry-point measurement\<close>

lemma visible_moveTo:
  "visible (entryPointDim (moveTo pos d)) =
     (let w = vectorObjs d (workpieceDim d);
          startAngle = inherentRotation (cutterArc d) + rotationAngle d;
          ps = intersectionLineArcVertical (vectorObjs d pos)
                 (cutterRadius d + cutterKerf / 2) startAngle
                 (startAngle + arcAngle (cutterArc d)) (x w)
      in length ps = 1 \<and> 0 < y w / 2 - y (ps ! 0) \<and> y w / 2 - y (ps ! 0) < y w / 2)"
  by (simp add: moveTo_def visible_updateEntryPointDim Let_def)

lemma sqrt_9025: "sqrt 9025 = 95"
  by (rule real_sqrt_unique) simp_all

lemma example_arc_unrotated:
  "intersectionLineArcVertical (Vector 150 20) 95 90 180 150 = [Vector 150 115]"
  by (simp add: intersectionLineArcVertical_def getIntersectingArcs_def isWithinArc_def
      sqrt_9025 subtract_Vector arg_up arg_down isAngleBetween_def normalizeAngle_base
      normalizeAngle_small Let_def)

lemma example_arc_rotated:
  "intersectionLineArcVertical (Vector 150 20) 95 135 225 150 = []"
  by (simp add: intersectionLineArcVertical_def getIntersectingArcs_def isWithinArc_def
      sqrt_9025 subtract_Vector arg_up arg_down isAngleBetween_def normalizeAngle_base
      normalizeAngle_small Let_def)

lemma js_rem_45: "js_rem 45 360 = 45"
  by (rule js_rem_small) simp_all

text \<open>
  C5 (the source misses a case). The claim is that after any change of pose the
  entry-point measurement is recomputed from the cutter arc's span at the new rotation,
  and shown exactly when one point survives at a distance within the half height. The
  computation is as claimed (\<open>visible_updateEntryPointDim\<close>) and \<open>moveTo\<close> runs it
  (\<open>visible_moveTo\<close>), but \<open>rotate\<close> and \<open>setRadius\<close> do not, although the result
  depends on the rotation and on the radius. With the workpiece extent \<open>(150, 300)\<close>, the
  radius 90 and the centre \<open>(150, 20)\<close> the measurement is shown; after a rotation by 45
  degrees no point of the arc lies on the line, and the measurement is still shown.
\<close>

theorem rotate_leaves_entry_point_stale:
  "(let d = snd (newVector 150 300 newDrawing);
        d = setWorkpieceDim 4 d;
        d = setRadius 90 d;
        d = snd (newVector 150 20 d);
        moved = moveTo 5 d;
        rotated = rotate_assembly 45 moved
    in visible (entryPointDim moved)
       \<and> visible (entryPointDim rotated)
       \<and> \<not> visible (entryPointDim (updateEntryPointDim rotated)))"
proof -
  define d where "d = snd (newVector 150 20 (setRadius 90 (setWorkpieceDim 4
                       (snd (newVector 150 300 newDrawing)))))"
  have n: "nextRef newDrawing = 4" "cutterArc newDrawing = \<lparr>arcAngle = 90, inherentRotation = 90\<rparr>"
    "rotationAngle newDrawing = 0"
    by (simp_all add: newDrawing_def cutterArcDegrees_def)
  have f: "vectorObjs d 5 = Vector 150 20" "vectorObjs d (workpieceDim d) = Vector 150 300"
    "cutterRadius d = 90" "rotationAngle d = 0" "inherentRotation (cutterArc d) = 90"
    "arcAngle (cutterArc d) = 90"
    by (simp_all add: d_def n)
  have moved: "visible (entryPointDim (moveTo 5 d))"
    by (simp add: visible_moveTo f cutterKerf_def example_arc_unrotated Let_def)
  have rotated: "\<not> visible (entryPointDim (updateEntryPointDim (rotate_assembly 45 (moveTo 5 d))))"
    by (simp add: visible_updateEntryPointDim f cutterKerf_def js_rem_45 example_arc_rotated Let_def)
  from moved rotated show ?thesis
    by (simp add: Let_def d_def [symmetric])
qed


section \<open>The stored rotation\<close>

lemma js_rem_multiple: "\<exists>n::int. a = js_rem a b + b * of_int n"
  by (rule exI [of _ "trunc (a / b)"]) (simp add: js_rem_def)

lemma js_rem_minus_30: "js_rem (- 30) 360 = - 30"
  by (rule js_rem_small_neg) simp_all

lemma js_rem_400: "js_rem 400 360 = 40"
  by (simp add: js_rem_def trunc_def)

lemma rotate_keeps_raw_angle_on_cut:
  "rotation (cutObjs (rotate_assembly a d) (currentCut (rotate_assembly a d))) = a"
  by simp

text \<open>
  C7, as claimed: \<open>rotate\<close> stores the remainder of the angle by 360 as the live
  rotation. The rotation of the assembly is the remainder, but the rotation of the live
  Cut is not: after \<open>rotate 400\<close> on a new drawing the assembly holds 40 and the live
  Cut holds 400.
\<close>

theorem rotate_live_cut_counterexample:
  "rotationAngle (rotate_assembly 400 newDrawing) = 40
   \<and> rotation (cutObjs (rotate_assembly 400 newDrawing)
                 (currentCut (rotate_assembly 400 newDrawing))) = 400
   \<and> js_rem 400 360 = 40"
  by (simp add: js_rem_400)

text \<open>
  C7, amended. \<open>rotate\<close> stores the remainder of the angle by 360 as the rotation of the
  assembly: smaller than 360 in magnitude, of the sign of the angle (their product is not
  negative), and differing from the angle by a multiple of 360; it is not normalised to
  \<open>[0, 360)\<close>, as \<open>-30\<close> is stored as \<open>-30\<close>. In the rotation of the live Cut it stores
  the angle itself, not reduced. After \<open>rotate a1\<close>, \<open>moveTo p\<close>, \<open>rotate a2\<close> the
  rotation of the assembly is the remainder of \<open>a2\<close> and the rotation of the live Cut is
  \<open>a2\<close>, whatever \<open>a1\<close> was.
\<close>

theorem rotate_stores_remainder_and_angle:
  "rotationAngle (rotate_assembly a d) = js_rem a 360
   \<and> \<bar>js_rem a 360\<bar> < 360 \<and> 0 \<le> a * js_rem a 360
   \<and> (\<exists>n::int. a = js_rem a 360 + 360 * of_int n)
   \<and> rotationAngle (rotate_assembly (- 30) d) = - 30
   \<and> rotation (cutObjs (rotate_assembly a d) (currentCut (rotate_assembly a d))) = a
   \<and> (let after = rotate_assembly a2 (moveTo p (rotate_assembly a1 d))
       in rotationAngle after = js_rem a2 360
          \<and> currentCut after = currentCut d
          \<and> rotation (cutObjs after (currentCut after)) = a2)"
  using js_rem_range(1,2) [of 360 a] js_rem_multiple [of a 360]
  by (simp add: js_rem_minus_30 Let_def)

section \<open>Degenerate geometry in the derived state\<close>

lemma tailstock_negative:
  "tailstockFixArcRadius * tailstockFixArcRadius
      - (0 - y (vectorObjs d (assemblyCenter d))) * (0 - y (vectorObjs d (assemblyCenter d))) < 0
   \<Longrightarrow> \<not> hasIntersections (checkTailstockArc d)"
  by (simp add: hasIntersections_checkTailstockArc Let_def horizontal_negative)

lemma entry_negative:
  "(cutterRadius d + cutterKerf / 2) * (cutterRadius d + cutterKerf / 2)
      - (x (vectorObjs d (workpieceDim d)) - x (vectorObjs d (assemblyCenter d)))
        * (x (vectorObjs d (workpieceDim d)) - x (vectorObjs d (assemblyCenter d))) < 0
   \<Longrightarrow> \<not> visible (entryPointDim (updateEntryPointDim d))"
  by (simp add: visible_updateEntryPointDim Let_def vertical_negative)

lemma entry_zero_radius:
  "cutterRadius d + cutterKerf / 2 = 0 \<Longrightarrow> \<not> visible (entryPointDim (updateEntryPointDim d))"
  by (simp add: visible_updateEntryPointDim Let_def vertical_zero_radius)

lemma entry_cutter_radius_zero:
  "cutterRadius d = 0 \<Longrightarrow>
   visible (entryPointDim (updateEntryPointDim d)) =
     (let w = vectorObjs d (workpieceDim d);
          startAngle = inherentRotation (cutterArc d) + rotationAngle d;
          ps = intersectionLineArcVertical (vectorObjs d (assemblyCenter d))
                 (cutterKerf / 2) startAngle
                 (startAngle + arcAngle (cutterArc d)) (x w)
      in length ps = 1 \<and> 0 < y w / 2 - y (ps ! 0) \<and> y w / 2 - y (ps ! 0) < y w / 2)"
  by (simp add: visible_updateEntryPointDim)

lemma sqrt_25: "sqrt 25 = 5"
  by (rule real_sqrt_unique) simp_all

lemma example_arc_radius_zero:
  "intersectionLineArcVertical (Vector 150 20) 5 90 180 150 = [Vector 150 25]"
  by (simp add: intersectionLineArcVertical_def getIntersectingArcs_def isWithinArc_def
      sqrt_25 subtract_Vector arg_up arg_down isAngleBetween_def normalizeAngle_base
      normalizeAngle_small Let_def)

lemma js_rem_minus_90: "js_rem (- 90) 360 = - 90"
  by (rule js_rem_small_neg) simp_all

text \<open>
  C8, as claimed: no operation raises an error, and degenerate geometry, a zero radius
  included, gives empty results, a false flag or a hidden measurement. None of this holds
  throughout. With radius 0, a vertical line through the centre and a span that holds
  the angle 0, the solver returns the centre twice. With the cutter radius 0 the
  entry-point computation runs at half the kerf, and with the workpiece extent
  \<open>(150, 300)\<close> and the centre \<open>(150, 20)\<close> the measurement is shown. And \<open>selectCut\<close>
  on the empty history of a new drawing raises a TypeError.
\<close>

theorem zero_radius_counterexample:
  "intersectionLineArcVertical (Vector 0 0) 0 0 90 0 = [Vector 0 0, Vector 0 0]
   \<and> cutterRadius (moveTo 5 (snd (newVector 150 20 (setRadius 0 (setWorkpieceDim 4
         (snd (newVector 150 300 newDrawing))))))) = 0
   \<and> visible (entryPointDim (moveTo 5 (snd (newVector 150 20 (setRadius 0 (setWorkpieceDim 4
         (snd (newVector 150 300 newDrawing))))))))
   \<and> selectCut 0 newDrawing = Inl TypeError"
proof -
  define d where "d = snd (newVector 150 20 (setRadius 0 (setWorkpieceDim 4
                       (snd (newVector 150 300 newDrawing)))))"
  have n: "nextRef newDrawing = 4" "cutterArc newDrawing = \<lparr>arcAngle = 90, inherentRotation = 90\<rparr>"
    "rotationAngle newDrawing = 0"
    by (simp_all add: newDrawing_def cutterArcDegrees_def)
  have f: "vectorObjs d 5 = Vector 150 20" "vectorObjs d (workpieceDim d) = Vector 150 300"
    "cutterRadius d = 0" "rotationAngle d = 0" "inherentRotation (cutterArc d) = 90"
    "arcAngle (cutterArc d) = 90"
    by (simp_all add: d_def n)
  have solver: "intersectionLineArcVertical (Vector 0 0) 0 0 90 0 = [Vector 0 0, Vector 0 0]"
    by (simp add: vertical_zero_radius isAngleBetween_def normalizeAngle_base Let_def)
  have shown: "visible (entryPointDim (moveTo 5 d))"
    by (simp add: visible_moveTo f cutterKerf_def example_arc_radius_zero Let_def)
  have raised: "selectCut 0 newDrawing = Inl TypeError"
    by (simp add: selectCut_def newDrawing_def)
  from solver shown raised f(3) show ?thesis
    by (simp add: d_def [symmetric])
qed

text \<open>
  C8, amended. The solvers have no error result. Each returns the empty sequence
  whenever its discriminant is negative. With radius 0 the vertical and the horizontal
  solver return the empty sequence unless the line passes through the centre and the
  angle 0 lies in the span, and then they return the centre twice. The tailstock flag is
  false when the centre line misses the tailstock circle, and the entry-point
  measurement is hidden when its discriminant is negative. With the cutter radius 0 the
  measurement is computed at the radius of half the kerf and is shown or hidden as at
  any other radius; it is hidden when the radius given to the solver, the cutter radius
  plus half the kerf, is 0. The operation that raises is \<open>selectCut\<close>, for an index
  outside the history.
\<close>

theorem degenerate_geometry:
  "(r * r - (x0 - x c) * (x0 - x c) < 0 \<longrightarrow> intersectionLineArcVertical c r s e x0 = [])
   \<and> (r * r - (y0 - y c) * (y0 - y c) < 0 \<longrightarrow>
        intersectionLineArcHorizontal c r s e ih y0 = [])
   \<and> ((-2 * x c + 2 * m * (k - y c)) * (-2 * x c + 2 * m * (k - y c))
         - 4 * (1 + m * m) * (x c * x c + (k - y c) * (k - y c) - r * r) < 0 \<longrightarrow>
        intersectionLineArcAngle c r s e m k = [])
   \<and> intersectionLineArcVertical c 0 s e x0 =
        (if x0 = x c \<and> isAngleBetween 0 s e then [c, c] else [])
   \<and> intersectionLineArcHorizontal c 0 s e ih y0 =
        (if y0 = y c \<and> isAngleBetween 0 s e then [c, c] else [])
   \<and> (tailstockFixArcRadius * tailstockFixArcRadius
         - (0 - y (vectorObjs dt (assemblyCenter dt))) * (0 - y (vectorObjs dt (assemblyCenter dt))) < 0
        \<longrightarrow> \<not> hasIntersections (checkTailstockArc dt))
   \<and> ((cutterRadius dn + cutterKerf / 2) * (cutterRadius dn + cutterKerf / 2)
         - (x (vectorObjs dn (workpieceDim dn)) - x (vectorObjs dn (assemblyCenter dn)))
           * (x (vectorObjs dn (workpieceDim dn)) - x (vectorObjs dn (assemblyCenter dn))) < 0
        \<longrightarrow> \<not> visible (entryPointDim (updateEntryPointDim dn)))
   \<and> (cutterRadius dz + cutterKerf / 2 = 0 \<longrightarrow>
        \<not> visible (entryPointDim (updateEntryPointDim dz)))
   \<and> (cutterRadius dc = 0 \<longrightarrow>
        visible (entryPointDim (updateEntryPointDim dc)) =
          (let w = vectorObjs dc (workpieceDim dc);
               startAngle = inherentRotation (cutterArc dc) + rotationAngle dc;
               ps = intersectionLineArcVertical (vectorObjs dc (assemblyCenter dc))
                      (cutterKerf / 2) startAngle
                      (startAngle + arcAngle (cutterArc dc)) (x w)
           in length ps = 1 \<and> 0 < y w / 2 - y (ps ! 0) \<and> y w / 2 - y (ps ! 0) < y w / 2))
   \<and> (length (cuts g) \<le> index \<longrightarrow> selectCut index g = Inl TypeError)"
  by (intro conjI impI vertical_negative horizontal_negative sloped_negative
      vertical_zero_radius horizontal_zero_radius
      tailstock_negative entry_negative entry_zero_radius entry_cutter_radius_zero
      selectCut_out_of_range)

theorem degenerate_geometry_witness:
  "1 * 1 - (2 - x (Vector 0 0)) * (2 - x (Vector 0 0)) < (0::real)
   \<and> intersectionLineArcVertical (Vector 0 0) 1 0 90 2 = []
   \<and> 1 * 1 - (2 - y (Vector 0 0)) * (2 - y (Vector 0 0)) < (0::real)
   \<and> intersectionLineArcHorizontal (Vector 0 0) 1 0 90 0 2 = []
   \<and> (-2 * x (Vector 0 0) + 2 * 0 * (2 - y (Vector 0 0)))
         * (-2 * x (Vector 0 0) + 2 * 0 * (2 - y (Vector 0 0)))
       - 4 * (1 + 0 * 0)
         * (x (Vector 0 0) * x (Vector 0 0) + (2 - y (Vector 0 0)) * (2 - y (Vector 0 0)) - 1 * 1)
       < (0::real)
   \<and> intersectionLineArcAngle (Vector 0 0) 1 0 90 0 2 = []
   \<and> (let dt = moveTo 4 (snd (newVector 10 200 newDrawing))
       in tailstockFixArcRadius * tailstockFixArcRadius
            - (0 - y (vectorObjs dt (assemblyCenter dt))) * (0 - y (vectorObjs dt (assemblyCenter dt))) < 0
          \<and> \<not> hasIntersections (checkTailstockArc dt))
   \<and> (let dn = moveTo 4 (snd (newVector 200 20 newDrawing))
       in (cutterRadius dn + cutterKerf / 2) * (cutterRadius dn + cutterKerf / 2)
            - (x (vectorObjs dn (workpieceDim dn)) - x (vectorObjs dn (assemblyCenter dn)))
              * (x (vectorObjs dn (workpieceDim dn)) - x (vectorObjs dn (assemblyCenter dn))) < 0
          \<and> \<not> visible (entryPointDim (updateEntryPointDim dn)))
   \<and> (let dz = rotate_assembly (- 90) (moveTo 4 (snd (newVector 0 20 (setRadius (- 5) newDrawing))))
       in cutterRadius dz + cutterKerf / 2 = 0
          \<and> (cutterRadius dz + cutterKerf / 2) * (cutterRadius dz + cutterKerf / 2)
               - (x (vectorObjs dz (workpieceDim dz)) - x (vectorObjs dz (assemblyCenter dz)))
                 * (x (vectorObjs dz (workpieceDim dz)) - x (vectorObjs dz (assemblyCenter dz))) = 0
          \<and> length (intersectionLineArcVertical (vectorObjs dz (assemblyCenter dz))
                       (cutterRadius dz + cutterKerf / 2)
                       (inherentRotation (cutterArc dz) + rotationAngle dz)
                       (inherentRotation (cutterArc dz) + rotationAngle dz + arcAngle (cutterArc dz))
                       (x (vectorObjs dz (workpieceDim dz)))) = 2
          \<and> \<not> visible (entryPointDim (updateEntryPointDim dz)))
   \<and> (let dc = moveTo 5 (snd (newVector 150 20 (setRadius 0 (setWorkpieceDim 4
                   (snd (newVector 150 300 newDrawing))))))
       in cutterRadius dc = 0 \<and> visible (entryPointDim (updateEntryPointDim dc)))
   \<and> length (cuts newDrawing) \<le> 0
   \<and> selectCut 0 newDrawing = Inl TypeError"
proof -
  define dt where "dt = moveTo 4 (snd (newVector 10 200 newDrawing))"
  define dn where "dn = moveTo 4 (snd (newVector 200 20 newDrawing))"
  define dz where
    "dz = rotate_assembly (- 90) (moveTo 4 (snd (newVector 0 20 (setRadius (- 5) newDrawing))))"
  define dc where "dc = moveTo 5 (snd (newVector 150 20 (setRadius 0 (setWorkpieceDim 4
                          (snd (newVector 150 300 newDrawing))))))"
  have n: "nextRef newDrawing = 4" "workpieceDim newDrawing = 3"
    "vectorObjs newDrawing = (\<lambda>r. Vector 0 0)" "cutterRadius newDrawing = 120"
    "cutterArc newDrawing = \<lparr>arcAngle = 90, inherentRotation = 90\<rparr>"
    "rotationAngle newDrawing = 0"
    by (simp_all add: newDrawing_def cutterArcDegrees_def)
  have ft: "vectorObjs dt (assemblyCenter dt) = Vector 10 200"
    by (simp add: dt_def n)
  have fn: "vectorObjs dn (assemblyCenter dn) = Vector 200 20"
    "vectorObjs dn (workpieceDim dn) = Vector 0 0" "cutterRadius dn = 120"
    by (simp_all add: dn_def n)
  have fz: "vectorObjs dz (assemblyCenter dz) = Vector 0 20"
    "vectorObjs dz (workpieceDim dz) = Vector 0 0" "cutterRadius dz = - 5"
    "rotationAngle dz = - 90" "inherentRotation (cutterArc dz) = 90"
    "arcAngle (cutterArc dz) = 90"
    by (simp_all add: dz_def n js_rem_minus_90)
  have fc: "vectorObjs dc (assemblyCenter dc) = Vector 150 20"
    "vectorObjs dc (workpieceDim dc) = Vector 150 300" "cutterRadius dc = 0"
    "rotationAngle dc = 0" "inherentRotation (cutterArc dc) = 90" "arcAngle (cutterArc dc) = 90"
    by (simp_all add: dc_def n)
  have v: "1 * 1 - (2 - x (Vector 0 0)) * (2 - x (Vector 0 0)) < (0::real)"
    by simp
  have h: "1 * 1 - (2 - y (Vector 0 0)) * (2 - y (Vector 0 0)) < (0::real)"
    by simp
  have a: "(-2 * x (Vector 0 0) + 2 * 0 * (2 - y (Vector 0 0)))
         * (-2 * x (Vector 0 0) + 2 * 0 * (2 - y (Vector 0 0)))
       - 4 * (1 + 0 * 0)
         * (x (Vector 0 0) * x (Vector 0 0) + (2 - y (Vector 0 0)) * (2 - y (Vector 0 0)) - 1 * 1)
       < (0::real)"
    by simp
  have t: "tailstockFixArcRadius * tailstockFixArcRadius
            - (0 - y (vectorObjs dt (assemblyCenter dt))) * (0 - y (vectorObjs dt (assemblyCenter dt))) < 0"
    by (simp add: ft tailstockFixArcRadius_def)
  have e: "(cutterRadius dn + cutterKerf / 2) * (cutterRadius dn + cutterKerf / 2)
               - (x (vectorObjs dn (workpieceDim dn)) - x (vectorObjs dn (assemblyCenter dn)))
                 * (x (vectorObjs dn (workpieceDim dn)) - x (vectorObjs dn (assemblyCenter dn))) < 0"
    by (simp add: fn cutterKerf_def)
  have z: "cutterRadius dz + cutterKerf / 2 = 0"
    by (simp add: fz cutterKerf_def)
  have z0: "(cutterRadius dz + cutterKerf / 2) * (cutterRadius dz + cutterKerf / 2)
               - (x (vectorObjs dz (workpieceDim dz)) - x (vectorObjs dz (assemblyCenter dz)))
                 * (x (vectorObjs dz (workpieceDim dz)) - x (vectorObjs dz (assemblyCenter dz))) = 0"
    by (simp add: fz cutterKerf_def)
  have z2: "length (intersectionLineArcVertical (vectorObjs dz (assemblyCenter dz))
                       (cutterRadius dz + cutterKerf / 2)
                       (inherentRotation (cutterArc dz) + rotationAngle dz)
                       (inherentRotation (cutterArc dz) + rotationAngle dz + arcAngle (cutterArc dz))
                       (x (vectorObjs dz (workpieceDim dz)))) = 2"
    by (simp add: fz cutterKerf_def vertical_zero_radius isAngleBetween_def normalizeAngle_base
        Let_def)
  have c0: "cutterRadius dc = 0"
    by (rule fc(3))
  have i: "length (cuts newDrawing) \<le> 0"
    by (simp add: newDrawing_def)
  note inst = degenerate_geometry [where r = 1 and ?x0.0 = 2 and c = "Vector 0 0" and s = 0
      and e = 90 and ?y0.0 = 2 and ih = 0 and m = 0 and k = 2 and dt = dt and dn = dn
      and dz = dz and dc = dc and g = newDrawing and index = 0]
  from inst c0 have "visible (entryPointDim (updateEntryPointDim dc)) =
          (let w = vectorObjs dc (workpieceDim dc);
               startAngle = inherentRotation (cutterArc dc) + rotationAngle dc;
               ps = intersectionLineArcVertical (vectorObjs dc (assemblyCenter dc))
                      (cutterKerf / 2) startAngle
                      (startAngle + arcAngle (cutterArc dc)) (x w)
           in length ps = 1 \<and> 0 < y w / 2 - y (ps ! 0) \<and> y w / 2 - y (ps ! 0) < y w / 2)"
    by blast
  then have shown: "visible (entryPointDim (updateEntryPointDim dc))"
    by (simp add: fc cutterKerf_def example_arc_radius_zero Let_def)
  from v h a t e z z0 z2 c0 shown i inst
  show ?thesis
    unfolding Let_def dt_def [symmetric] dn_def [symmetric] dz_def [symmetric] dc_def [symmetric]
    by blast
qed

section \<open>Committed snapshots\<close>

lemma perform_frame:
  "currentCut (perform c d) = currentCut d"
  "cuts (perform c d) = cuts d"
  "nextRef d \<le> nextRef (perform c d)"
  "r \<noteq> currentCut d \<Longrightarrow> cutObjs (perform c d) r = cutObjs d r"
  "v < nextRef d \<Longrightarrow> vectorObjs (perform c d) v = vectorObjs d v"
  by (cases c; simp)+

lemma performAll_frame:
  "currentCut (performAll cs d) = currentCut d"
  "cuts (performAll cs d) = cuts d"
  "nextRef d \<le> nextRef (performAll cs d)"
  "r \<noteq> currentCut d \<Longrightarrow> cutObjs (performAll cs d) r = cutObjs d r"
  "v < nextRef d \<Longrightarrow> vectorObjs (performAll cs d) v = vectorObjs d v"
proof (induction cs arbitrary: d)
  case Nil
  {
    case 1 show ?case by simp
  next
    case 2 show ?case by simp
  next
    case 3 show ?case by simp
  next
    case 4 show ?case by simp
  next
    case 5 show ?case by simp
  }
next
  case (Cons c cs)
  {
    case 1 show ?case by (simp add: Cons.IH(1) perform_frame(1))
  next
    case 2 show ?case by (simp add: Cons.IH(2) perform_frame(2))
  next
    case 3 show ?case
      using Cons.IH(3) [of "perform c d"] perform_frame(3) [of d c] by simp
  next
    case 4 then show ?case
      by (simp add: Cons.IH(4) perform_frame(1,4))
  next
    case 5
    then have "v < nextRef (perform c d)" using perform_frame(3) [of d c] by simp
    with 5 show ?case by (simp add: Cons.IH(5) perform_frame(5))
  }
qed

lemma snapshot_of_addCurrentCut:
  assumes "currentCut d < nextRef d"
  shows "cutObjs (addCurrentCut d) (nextRef d) =
           \<lparr>center = center (cutObjs d (currentCut d)),
            rotation = rotation (cutObjs d (currentCut d)),
            radius = radius (cutObjs d (currentCut d)), wasSaved = False\<rparr>"
    and "cutObjs (addCurrentCut d) (currentCut d) = (cutObjs d (currentCut d))\<lparr>wasSaved := False\<rparr>"
    and "r \<noteq> nextRef d \<Longrightarrow> r \<noteq> currentCut d \<Longrightarrow> cutObjs (addCurrentCut d) r = cutObjs d r"
  using assms by (simp_all add: cutObjs_addCurrentCut)

text \<open>
  C10. A snapshot committed by \<open>addCurrentCut\<close> is a Cut object of its own that holds the
  same centre Vector as the live Cut. Whatever sequence of \<open>moveTo\<close>, \<open>rotate\<close> and
  \<open>setRadius\<close> follows, with the caller building new Vectors in between, the snapshot
  stays in the history unchanged: its centre has the coordinates, and its rotation and
  radius the values, that the live Cut had at the commit. The state is one in which the
  live Cut and its centre are objects of the store.
\<close>

theorem committed_snapshot_unaffected:
  assumes "currentCut d < nextRef d" and "center (cutObjs d (currentCut d)) < nextRef d"
  shows "let committed = addCurrentCut d;
             snapshot = last (cuts committed);
             later = performAll cs committed
         in snapshot \<noteq> currentCut committed
            \<and> center (cutObjs committed snapshot) = center (cutObjs committed (currentCut committed))
            \<and> cuts later = cuts committed
            \<and> cutObjs later snapshot = cutObjs committed snapshot
            \<and> vectorObjs later (center (cutObjs later snapshot))
                = vectorObjs d (center (cutObjs d (currentCut d)))
            \<and> rotation (cutObjs later snapshot) = rotation (cutObjs d (currentCut d))
            \<and> radius (cutObjs later snapshot) = radius (cutObjs d (currentCut d))"
proof -
  define committed where "committed = addCurrentCut d"
  define later where "later = performAll cs committed"
  have snap: "last (cuts committed) = nextRef d" by (simp add: committed_def)
  have ne: "nextRef d \<noteq> currentCut committed" using assms(1) by (simp add: committed_def)
  have obj: "cutObjs committed (nextRef d) =
           \<lparr>center = center (cutObjs d (currentCut d)),
            rotation = rotation (cutObjs d (currentCut d)),
            radius = radius (cutObjs d (currentCut d)), wasSaved = False\<rparr>"
    unfolding committed_def using assms(1) by (rule snapshot_of_addCurrentCut(1))
  have live: "center (cutObjs committed (currentCut committed)) = center (cutObjs d (currentCut d))"
    using assms(1) by (simp add: committed_def snapshot_of_addCurrentCut(2))
  have same: "cutObjs later (nextRef d) = cutObjs committed (nextRef d)"
    unfolding later_def using ne by (rule performAll_frame(4))
  have "center (cutObjs d (currentCut d)) < nextRef committed"
    using assms(2) by (simp add: committed_def)
  then have "vectorObjs later (center (cutObjs d (currentCut d)))
      = vectorObjs committed (center (cutObjs d (currentCut d)))"
    unfolding later_def by (rule performAll_frame(5))
  then have vec: "vectorObjs later (center (cutObjs d (currentCut d)))
      = vectorObjs d (center (cutObjs d (currentCut d)))"
    by (simp add: committed_def)
  have hist: "cuts later = cuts committed"
    unfolding later_def by (rule performAll_frame(2))
  show ?thesis
    unfolding Let_def committed_def [symmetric] later_def [symmetric] snap
    using ne live same vec hist by (simp add: obj)
qed

theorem committed_snapshot_unaffected_witness:
  "currentCut newDrawing < nextRef newDrawing
   \<and> center (cutObjs newDrawing (currentCut newDrawing)) < nextRef newDrawing
   \<and> (let committed = addCurrentCut newDrawing;
           snapshot = last (cuts committed);
           later = performAll [NewVector 30 40, MoveTo 5, Rotate 400, SetRadius 70] committed
       in snapshot \<noteq> currentCut committed
          \<and> center (cutObjs committed snapshot) = center (cutObjs committed (currentCut committed))
          \<and> cuts later = cuts committed
          \<and> cutObjs later snapshot = cutObjs committed snapshot
          \<and> vectorObjs later (center (cutObjs later snapshot))
              = vectorObjs newDrawing (center (cutObjs newDrawing (currentCut newDrawing)))
          \<and> rotation (cutObjs later snapshot) = rotation (cutObjs newDrawing (currentCut newDrawing))
          \<and> radius (cutObjs later snapshot) = radius (cutObjs newDrawing (currentCut newDrawing)))"
proof -
  have a: "currentCut newDrawing < nextRef newDrawing"
    by (simp add: newDrawing_def)
  have b: "center (cutObjs newDrawing (currentCut newDrawing)) < nextRef newDrawing"
    by (simp add: newDrawing_def)
  from a b committed_snapshot_unaffected [OF a b] show ?thesis by blast
qed


section \<open>Selecting a cut from the history\<close>

lemma selectCut_in_range:
  assumes idx: "index < length (cuts g)"
    and live: "currentCut g < nextRef g"
    and sel: "cuts g ! index < nextRef g" "cuts g ! index \<noteq> currentCut g"
  shows "\<exists>selected. selectCut index g = Inr selected
     \<and> cuts selected = take index (cuts g) @ drop (Suc index) (cuts g)
           @ (if wasSaved (cutObjs g (currentCut g)) then [nextRef g] else [])
     \<and> (if wasSaved (cutObjs g (currentCut g))
         then cutObjs selected (nextRef g) =
                \<lparr>center = center (cutObjs g (currentCut g)),
                 rotation = rotation (cutObjs g (currentCut g)),
                 radius = radius (cutObjs g (currentCut g)), wasSaved = False\<rparr>
         else cutObjs selected (nextRef g) = cutObjs g (nextRef g))
     \<and> (\<forall>r. r \<noteq> currentCut g \<and> r \<noteq> nextRef g \<longrightarrow> cutObjs selected r = cutObjs g r)
     \<and> currentCut selected = currentCut g
     \<and> vectorObjs selected = vectorObjs g
     \<and> cutObjs selected (currentCut selected) =
           \<lparr>center = center (cutObjs g (cuts g ! index)),
            rotation = rotation (cutObjs g (cuts g ! index)),
            radius = radius (cutObjs g (cuts g ! index)), wasSaved = True\<rparr>
     \<and> assemblyCenter selected = center (cutObjs g (cuts g ! index))
     \<and> rotationAngle selected = js_rem (rotation (cutObjs g (cuts g ! index))) 360
     \<and> cutterRadius selected = radius (cutObjs g (cuts g ! index))"
proof (cases "wasSaved (cutObjs g (currentCut g))")
  case True
  with assms show ?thesis
    by (simp add: selectCut_def Let_def split_beta)
next
  case False
  with assms show ?thesis
    by (simp add: selectCut_def Let_def split_beta)
qed

text \<open>
  C6. From an empty history, commit the live Cut, edit it by any sequence of calls, and
  commit it again; then \<open>selectCut 0\<close> succeeds, leaves in the history exactly one entry,
  the second snapshot with the values of the second commit, and gives the live Cut the
  centre, rotation and radius it had at the first commit. \<open>addCurrentCut\<close> clears the
  flag of the live Cut, so this holds whatever the flag was at the start. In general, for
  an index within the history, \<open>selectCut\<close> removes the entry at the index, appends a
  copy of the live Cut exactly when its flag is set, and then gives the live Cut the
  fields of the removed entry and sets its flag. The states are ones in which the live
  Cut, its centre and the chosen entry are objects of the store and the chosen entry is
  not the live Cut.
\<close>

theorem commit_twice_select_first:
  assumes "cuts d = []"
    and "currentCut d < nextRef d"
    and "center (cutObjs d (currentCut d)) < nextRef d"
    and "index < length (cuts g)"
    and "currentCut g < nextRef g"
    and "cuts g ! index < nextRef g"
    and "cuts g ! index \<noteq> currentCut g"
  shows "(let first = addCurrentCut d;
              edited = performAll cs first;
              second = addCurrentCut edited
          in \<exists>selected. selectCut 0 second = Inr selected
               \<and> cuts selected = [last (cuts second)]
               \<and> center (cutObjs selected (last (cuts second))) = center (cutObjs edited (currentCut edited))
               \<and> rotation (cutObjs selected (last (cuts second))) = rotation (cutObjs edited (currentCut edited))
               \<and> radius (cutObjs selected (last (cuts second))) = radius (cutObjs edited (currentCut edited))
               \<and> currentCut selected = currentCut d
               \<and> center (cutObjs selected (currentCut selected)) = center (cutObjs d (currentCut d))
               \<and> vectorObjs selected (center (cutObjs selected (currentCut selected)))
                   = vectorObjs d (center (cutObjs d (currentCut d)))
               \<and> rotation (cutObjs selected (currentCut selected)) = rotation (cutObjs d (currentCut d))
               \<and> radius (cutObjs selected (currentCut selected)) = radius (cutObjs d (currentCut d)))
     \<and> (\<exists>selected. selectCut index g = Inr selected
            \<and> cuts selected = take index (cuts g) @ drop (Suc index) (cuts g)
                  @ (if wasSaved (cutObjs g (currentCut g)) then [nextRef g] else [])
            \<and> (if wasSaved (cutObjs g (currentCut g))
                then cutObjs selected (nextRef g) =
                       \<lparr>center = center (cutObjs g (currentCut g)),
                        rotation = rotation (cutObjs g (currentCut g)),
                        radius = radius (cutObjs g (currentCut g)), wasSaved = False\<rparr>
                else cutObjs selected (nextRef g) = cutObjs g (nextRef g))
            \<and> currentCut selected = currentCut g
            \<and> cutObjs selected (currentCut selected) =
                  \<lparr>center = center (cutObjs g (cuts g ! index)),
                   rotation = rotation (cutObjs g (cuts g ! index)),
                   radius = radius (cutObjs g (cuts g ! index)), wasSaved = True\<rparr>)"
proof -
  define L where "L = currentCut d"
  define n0 where "n0 = nextRef d"
  define first where "first = addCurrentCut d"
  define edited where "edited = performAll cs first"
  define second where "second = addCurrentCut edited"
  define n2 where "n2 = nextRef edited"
  have Ln0: "L < n0" using assms(2) by (simp add: L_def n0_def)
  have first_f: "cuts first = [n0]" "currentCut first = L" "nextRef first = Suc n0"
    "vectorObjs first = vectorObjs d"
    using assms(1) by (simp_all add: first_def n0_def L_def)
  have first_snap: "cutObjs first n0 =
      \<lparr>center = center (cutObjs d L), rotation = rotation (cutObjs d L),
       radius = radius (cutObjs d L), wasSaved = False\<rparr>"
    unfolding first_def n0_def L_def using assms(2) by (rule snapshot_of_addCurrentCut(1))
  have edited_f: "cuts edited = [n0]" "currentCut edited = L" "Suc n0 \<le> n2"
    using performAll_frame(1,2,3) [where cs = cs and d = first] by (simp_all add: edited_def first_f n2_def)
  have "n0 \<noteq> currentCut first" using Ln0 by (simp add: first_f)
  then have edited_snap: "cutObjs edited n0 = cutObjs first n0"
    unfolding edited_def by (rule performAll_frame(4))
  have "center (cutObjs d L) < nextRef first" using assms(3) by (simp add: first_f L_def n0_def)
  then have edited_vec: "vectorObjs edited (center (cutObjs d L)) = vectorObjs d (center (cutObjs d L))"
    using performAll_frame(5) [where v = "center (cutObjs d L)" and d = first and cs = cs] by (simp add: edited_def first_f)
  have Ln2: "L < n2" "n0 < n2" "n0 \<noteq> n2" "L \<noteq> n0" using Ln0 edited_f(3) by simp_all
  have second_f: "cuts second = [n0, n2]" "currentCut second = L" "nextRef second = Suc n2"
    "vectorObjs second = vectorObjs edited"
    by (simp_all add: second_def edited_f n2_def)
  have "currentCut edited < nextRef edited" using Ln2(1) by (simp add: edited_f n2_def)
  then have second_snap: "cutObjs second n2 =
      \<lparr>center = center (cutObjs edited L), rotation = rotation (cutObjs edited L),
       radius = radius (cutObjs edited L), wasSaved = False\<rparr>"
    and second_live: "cutObjs second L = (cutObjs edited L)\<lparr>wasSaved := False\<rparr>"
    using snapshot_of_addCurrentCut(1,2) [of edited] by (simp_all add: second_def edited_f n2_def)
  have second_old: "cutObjs second n0 = cutObjs edited n0"
    using snapshot_of_addCurrentCut(3) [where d = edited and r = n0] \<open>currentCut edited < nextRef edited\<close> Ln2
    by (simp add: second_def edited_f n2_def)
  have h: "0 < length (cuts second)" "currentCut second < nextRef second"
    "cuts second ! 0 < nextRef second" "cuts second ! 0 \<noteq> currentCut second"
    using Ln2 by (simp_all add: second_f)
  obtain selected where s: "selectCut 0 second = Inr selected"
    and s_cuts: "cuts selected = take 0 (cuts second) @ drop (Suc 0) (cuts second)
           @ (if wasSaved (cutObjs second (currentCut second)) then [nextRef second] else [])"
    and s_other: "\<forall>r. r \<noteq> currentCut second \<and> r \<noteq> nextRef second \<longrightarrow> cutObjs selected r = cutObjs second r"
    and s_cur: "currentCut selected = currentCut second"
    and s_vec: "vectorObjs selected = vectorObjs second"
    and s_live: "cutObjs selected (currentCut selected) =
           \<lparr>center = center (cutObjs second (cuts second ! 0)),
            rotation = rotation (cutObjs second (cuts second ! 0)),
            radius = radius (cutObjs second (cuts second ! 0)), wasSaved = True\<rparr>"
    using selectCut_in_range [OF h] by blast
  have c1: "cuts selected = [n2]"
    using s_cuts by (simp add: second_f second_live)
  have "n2 \<noteq> currentCut second \<and> n2 \<noteq> nextRef second" using Ln2 by (simp add: second_f)
  with s_other have c2: "cutObjs selected n2 = cutObjs second n2" by blast
  have c3: "cutObjs selected L =
           \<lparr>center = center (cutObjs d L), rotation = rotation (cutObjs d L),
            radius = radius (cutObjs d L), wasSaved = True\<rparr>"
    using s_live s_cur by (simp add: second_f second_old edited_snap first_snap)
  have scenario: "\<exists>selected. selectCut 0 second = Inr selected
               \<and> cuts selected = [last (cuts second)]
               \<and> center (cutObjs selected (last (cuts second))) = center (cutObjs edited (currentCut edited))
               \<and> rotation (cutObjs selected (last (cuts second))) = rotation (cutObjs edited (currentCut edited))
               \<and> radius (cutObjs selected (last (cuts second))) = radius (cutObjs edited (currentCut edited))
               \<and> currentCut selected = currentCut d
               \<and> center (cutObjs selected (currentCut selected)) = center (cutObjs d (currentCut d))
               \<and> vectorObjs selected (center (cutObjs selected (currentCut selected)))
                   = vectorObjs d (center (cutObjs d (currentCut d)))
               \<and> rotation (cutObjs selected (currentCut selected)) = rotation (cutObjs d (currentCut d))
               \<and> radius (cutObjs selected (currentCut selected)) = radius (cutObjs d (currentCut d))"
    using s c1 s_cur
    by (intro exI [of _ selected])
       (simp add: c2 c3 second_f second_snap edited_f s_vec edited_vec L_def [symmetric])
  have general: "\<exists>selected. selectCut index g = Inr selected
            \<and> cuts selected = take index (cuts g) @ drop (Suc index) (cuts g)
                  @ (if wasSaved (cutObjs g (currentCut g)) then [nextRef g] else [])
            \<and> (if wasSaved (cutObjs g (currentCut g))
                then cutObjs selected (nextRef g) =
                       \<lparr>center = center (cutObjs g (currentCut g)),
                        rotation = rotation (cutObjs g (currentCut g)),
                        radius = radius (cutObjs g (currentCut g)), wasSaved = False\<rparr>
                else cutObjs selected (nextRef g) = cutObjs g (nextRef g))
            \<and> currentCut selected = currentCut g
            \<and> cutObjs selected (currentCut selected) =
                  \<lparr>center = center (cutObjs g (cuts g ! index)),
                   rotation = rotation (cutObjs g (cuts g ! index)),
                   radius = radius (cutObjs g (cuts g ! index)), wasSaved = True\<rparr>"
    using selectCut_in_range [OF assms(4-7)] by blast
  from scenario general show ?thesis
    unfolding Let_def first_def [symmetric] edited_def [symmetric] second_def [symmetric]
    by (rule conjI)
qed


theorem commit_twice_select_first_witness:
  "cuts newDrawing = []
   \<and> currentCut newDrawing < nextRef newDrawing
   \<and> center (cutObjs newDrawing (currentCut newDrawing)) < nextRef newDrawing
   \<and> (let g = assignCurrentCut (\<lambda>c. c\<lparr>wasSaved := True\<rparr>) (addCurrentCut newDrawing)
       in 0 < length (cuts g) \<and> currentCut g < nextRef g \<and> cuts g ! 0 < nextRef g
          \<and> cuts g ! 0 \<noteq> currentCut g \<and> wasSaved (cutObjs g (currentCut g))
          \<and> (\<exists>selected. selectCut 0 g = Inr selected \<and> cuts selected = [nextRef g]
                \<and> rotation (cutObjs selected (nextRef g)) = rotation (cutObjs g (currentCut g))))
   \<and> (let second = addCurrentCut (performAll [NewVector 30 40, MoveTo 5, Rotate 400, SetRadius 70]
                       (addCurrentCut newDrawing))
       in \<exists>selected. selectCut 0 second = Inr selected
            \<and> cuts selected = [last (cuts second)]
            \<and> rotation (cutObjs selected (currentCut selected)) = 0
            \<and> radius (cutObjs selected (currentCut selected)) = 0)"
proof -
  define g where "g = assignCurrentCut (\<lambda>c. c\<lparr>wasSaved := True\<rparr>) (addCurrentCut newDrawing)"
  define cs where "cs = [NewVector 30 40, MoveTo 5, Rotate 400, SetRadius 70]"
  have n: "cuts newDrawing = []" "currentCut newDrawing = 1" "nextRef newDrawing = 4"
    "cutObjs newDrawing r = \<lparr>center = 0, rotation = 0, radius = 0, wasSaved = False\<rparr>" for r
    by (simp_all add: newDrawing_def)
  have d1: "cuts newDrawing = []" by (rule n(1))
  have d2: "currentCut newDrawing < nextRef newDrawing" by (simp add: n)
  have d3: "center (cutObjs newDrawing (currentCut newDrawing)) < nextRef newDrawing"
    by (simp add: n)
  have gf: "cuts g = [4]" "currentCut g = 1" "nextRef g = 5"
    by (simp_all add: g_def n)
  have gs: "wasSaved (cutObjs g (currentCut g))"
    by (simp add: g_def n)
  have g1: "0 < length (cuts g)" and g2: "currentCut g < nextRef g"
    and g3: "cuts g ! 0 < nextRef g" and g4: "cuts g ! 0 \<noteq> currentCut g"
    by (simp_all add: gf)
  note inst = commit_twice_select_first [OF d1 d2 d3 g1 g2 g3 g4, where cs = cs, unfolded Let_def]
  from inst [THEN conjunct1] d2
  have scenario: "\<exists>selected.
        selectCut 0 (addCurrentCut (performAll cs (addCurrentCut newDrawing))) = Inr selected
      \<and> cuts selected = [last (cuts (addCurrentCut (performAll cs (addCurrentCut newDrawing))))]
      \<and> rotation (cutObjs selected (currentCut selected)) = 0
      \<and> radius (cutObjs selected (currentCut selected)) = 0"
    by (auto simp add: n)
  from inst [THEN conjunct2] gs
  have general: "\<exists>selected. selectCut 0 g = Inr selected \<and> cuts selected = [nextRef g]
                \<and> rotation (cutObjs selected (nextRef g)) = rotation (cutObjs g (currentCut g))"
    by (auto simp add: gf)
  from d1 d2 d3 g1 g2 g3 g4 gs scenario general show ?thesis
    unfolding Let_def g_def [symmetric] cs_def [symmetric] by blast
qed

end
